theory Spec2Isabelle
  imports Complex_Main "HOL-Library.AList"
begin

section \<open>Values, arrays and dictionaries\<close>

text \<open>
  A numpy \<^verbatim>\<open>float64\<close> sample is a real number, an infinity or NaN. Arithmetic on finite
  values is exact (rounding, overflow and the sign of zero are not modelled, but for the
  exponential, which underflows to zero and overflows as float64 does); the special
  values follow IEEE 754. \<open>Inf True\<close> is \<open>+inf\<close>, \<open>Inf False\<close> is \<open>-inf\<close>.
  Samples read from a file are often NaN in flagged channels, and the loader tests them
  with \<^verbatim>\<open>np.isfinite\<close>, so the special values are part of the data.
\<close>

datatype npfloat = Fin real | Inf bool | NaN

fun isfinite :: "npfloat \<Rightarrow> bool" where
  "isfinite (Fin a) = True"
| "isfinite _ = False"

fun fneg :: "npfloat \<Rightarrow> npfloat" where
  "fneg (Fin a) = Fin (- a)"
| "fneg (Inf s) = Inf (\<not> s)"
| "fneg NaN = NaN"

fun fabs :: "npfloat \<Rightarrow> npfloat" where
  "fabs (Fin a) = Fin \<bar>a\<bar>"
| "fabs (Inf s) = Inf True"
| "fabs NaN = NaN"

fun fadd :: "npfloat \<Rightarrow> npfloat \<Rightarrow> npfloat" where
  "fadd (Fin a) (Fin b) = Fin (a + b)"
| "fadd (Fin a) (Inf s) = Inf s"
| "fadd (Inf s) (Fin b) = Inf s"
| "fadd (Inf s) (Inf t) = (if s = t then Inf s else NaN)"
| "fadd _ _ = NaN"

fun fmul :: "npfloat \<Rightarrow> npfloat \<Rightarrow> npfloat" where
  "fmul (Fin a) (Fin b) = Fin (a * b)"
| "fmul (Fin a) (Inf s) = (if a = 0 then NaN else Inf ((0 < a) = s))"
| "fmul (Inf s) (Fin b) = (if b = 0 then NaN else Inf ((0 < b) = s))"
| "fmul (Inf s) (Inf t) = Inf (s = t)"
| "fmul _ _ = NaN"

fun fdiv :: "npfloat \<Rightarrow> npfloat \<Rightarrow> npfloat" where
  "fdiv (Fin a) (Fin b) =
     (if b \<noteq> 0 then Fin (a / b) else if a = 0 then NaN else Inf (0 < a))"
| "fdiv (Fin a) (Inf s) = Fin 0"
| "fdiv (Inf s) (Fin b) = Inf ((0 \<le> b) = s)"
| "fdiv _ _ = NaN"

fun fsqrt :: "npfloat \<Rightarrow> npfloat" where
  "fsqrt (Fin a) = (if 0 \<le> a then Fin (sqrt a) else NaN)"
| "fsqrt (Inf s) = (if s then Inf True else NaN)"
| "fsqrt NaN = NaN"

text \<open>
  \<^verbatim>\<open>np.exp\<close> in float64. The smallest positive float64 is \<^verbatim>\<open>2**-1074\<close>: the exponential of an
  argument below \<open>- 1075 * ln 2\<close> (about -745.13) is less than half of it and is returned as
  \<^verbatim>\<open>0.0\<close>. The largest float64 is below \<^verbatim>\<open>2**1024\<close>: from \<open>1024 * ln 2\<close> (about 709.78) on
  the result is \<^verbatim>\<open>+inf\<close>. \<open>exp64\<close> is the value returned for an argument that does not
  overflow: a kernel weight vanishes for a sample far enough from the centre of the bin.
\<close>

definition exp64 :: "real \<Rightarrow> real" where
  "exp64 a = (if a < - (1075 * ln 2) then 0 else exp a)"

fun fexp :: "npfloat \<Rightarrow> npfloat" where
  "fexp (Fin a) = (if 1024 * ln 2 \<le> a then Inf True else Fin (exp64 a))"
| "fexp (Inf s) = (if s then Inf True else Fin 0)"
| "fexp NaN = NaN"

text \<open>Comparisons with NaN are false.\<close>

fun fge :: "npfloat \<Rightarrow> npfloat \<Rightarrow> bool" where
  "fge (Fin a) (Fin b) = (b \<le> a)"
| "fge (Fin a) (Inf s) = (\<not> s)"
| "fge (Inf s) (Fin b) = s"
| "fge (Inf s) (Inf t) = (s \<or> \<not> t)"
| "fge _ _ = False"

fun fgt :: "npfloat \<Rightarrow> npfloat \<Rightarrow> bool" where
  "fgt (Fin a) (Fin b) = (b < a)"
| "fgt (Fin a) (Inf s) = (\<not> s)"
| "fgt (Inf s) (Fin b) = s"
| "fgt (Inf s) (Inf t) = (s \<and> \<not> t)"
| "fgt _ _ = False"

text \<open>\<^verbatim>\<open>np.sum\<close> of a 1D array; the empty sum is 0.\<close>

definition fsum :: "npfloat list \<Rightarrow> npfloat" where
  "fsum xs = foldl fadd (Fin 0) xs"

text \<open>
  \<^verbatim>\<open>np.angle(re + 1j*im, deg=True)\<close> for one element. The product \<^verbatim>\<open>1j*im\<close> has the real
  part \<^verbatim>\<open>0*im\<close>, NaN for an infinite or NaN \<open>im\<close>; otherwise the angle is
  \<^verbatim>\<open>arctan2(im, re)\<close> in degrees.
\<close>

definition arctan2 :: "real \<Rightarrow> real \<Rightarrow> real" where
  "arctan2 y x =
     (if 0 < x then arctan (y / x)
      else if x < 0 then (if 0 \<le> y then arctan (y / x) + pi else arctan (y / x) - pi)
      else if 0 < y then pi / 2 else if y < 0 then - pi / 2 else 0)"

fun angle_deg :: "npfloat \<Rightarrow> npfloat \<Rightarrow> npfloat" where
  "angle_deg (Fin re) (Fin im) = Fin (arctan2 im re * 180 / pi)"
| "angle_deg (Inf s) (Fin im) = Fin (if s then 0 else if 0 \<le> im then 180 else - 180)"
| "angle_deg _ _ = NaN"

text \<open>
  The exceptions of Python that the modelled code can raise, and the result type of a
  computation that may raise. \<open>bnd\<close> sequences two computations: the first exception
  raised is the result.
\<close>

datatype pyerr = KeyError | ValueError | IndexError | TypeError | AssertionError | NameError

definition bnd :: "pyerr + 'a \<Rightarrow> ('a \<Rightarrow> pyerr + 'b) \<Rightarrow> pyerr + 'b" where
  "bnd m f = (case m of Inl e \<Rightarrow> Inl e | Inr x \<Rightarrow> f x)"

text \<open>
  The value stored under a key of a table: a 1D float array (epochs, coordinates: finite
  reals), a 2D float array or a 2D boolean array (lists of rows), an array of names, or
  the formula of a triangle. The formula is the tuple \<^verbatim>\<open>(s, t)\<close> at first
  (\<open>Formula s t []\<close>) and the list \<^verbatim>\<open>[s, t, w0, w1, w2]\<close> later (\<open>Formula s t [w0, w1, w2]\<close>).
  A table (\<^verbatim>\<open>res['OI_VIS2']['A0B1']\<close>, say) is a Python dictionary: an association list in
  insertion order, read with \<open>map_of\<close> and written with \<open>AList.update\<close>, which keeps the
  place of a key that exists and appends a new one.
\<close>

datatype field =
    Vec "real list"
  | Mat "npfloat list list"
  | Flags "bool list list"
  | Names "string list"
  | Formula "int list" "string list" "nat list list"

type_synonym ext = "(string \<times> field) list"

definition getVec :: "ext \<Rightarrow> string \<Rightarrow> pyerr + real list" where
  "getVec e k = (case map_of e k of Some (Vec v) \<Rightarrow> Inr v | Some _ \<Rightarrow> Inl TypeError
                 | None \<Rightarrow> Inl KeyError)"

definition getMat :: "ext \<Rightarrow> string \<Rightarrow> pyerr + npfloat list list" where
  "getMat e k = (case map_of e k of Some (Mat v) \<Rightarrow> Inr v | Some _ \<Rightarrow> Inl TypeError
                 | None \<Rightarrow> Inl KeyError)"

definition getFlags :: "ext \<Rightarrow> string \<Rightarrow> pyerr + bool list list" where
  "getFlags e k = (case map_of e k of Some (Flags v) \<Rightarrow> Inr v | Some _ \<Rightarrow> Inl TypeError
                   | None \<Rightarrow> Inl KeyError)"

definition getTable :: "(string \<times> ext) list \<Rightarrow> string \<Rightarrow> pyerr + ext" where
  "getTable d k = (case map_of d k of Some e \<Rightarrow> Inr e | None \<Rightarrow> Inl KeyError)"

definition nth_e :: "'a list \<Rightarrow> nat \<Rightarrow> pyerr + 'a" where
  "nth_e xs i = (if i < length xs then Inr (xs ! i) else Inl IndexError)"

text \<open>
  \<^verbatim>\<open>np.append(A, B, axis=0)\<close> and \<^verbatim>\<open>np.concatenate((A, B))\<close> of two 2D arrays: the rows of
  \<open>B\<close> after those of \<open>A\<close>; numpy raises ValueError when the row widths differ.
\<close>

definition append_rows :: "'a list list \<Rightarrow> 'a list list \<Rightarrow> pyerr + 'a list list" where
  "append_rows A B =
     (if list_all (\<lambda>r. list_all (\<lambda>r'. length r = length r') B) A
      then Inr (A @ B) else Inl ValueError)"

text \<open>
  An elementwise binary operation with numpy's broadcasting along one axis: equal lengths
  pair up, an operand of length one is repeated, anything else is a ValueError.
\<close>

definition bcast2 :: "('a \<Rightarrow> 'b \<Rightarrow> 'c) \<Rightarrow> 'a list \<Rightarrow> 'b list \<Rightarrow> pyerr + 'c list" where
  "bcast2 f xs ys =
     (if length xs = length ys then Inr (map2 f xs ys)
      else if length xs = 1 then Inr (map (f (hd xs)) ys)
      else if length ys = 1 then Inr (map (\<lambda>x. f x (hd ys)) xs)
      else Inl ValueError)"

section \<open>Closure reconciliation: the legs of a triangle\<close>

text \<open>
  \<^verbatim>\<open>loadOI\<close> names a closure triangle by the concatenation of its three station names,
  each of \<open>n\<close> characters, and a baseline by the concatenation of two. The slices of the
  triangle name \<open>k\<close> that the source takes are written out with \<open>take\<close> and \<open>drop\<close>:
  \<^verbatim>\<open>k[a:b]\<close> is \<open>slice a b k\<close>, \<^verbatim>\<open>k[:b]\<close> is \<open>take b k\<close>, \<^verbatim>\<open>k[a:]\<close> is \<open>drop a k\<close>.
\<close>

definition slice :: "nat \<Rightarrow> nat \<Rightarrow> 'a list \<Rightarrow> 'a list" where
  "slice a b k = take (b - a) (drop a k)"

text \<open>
  The three \<^verbatim>\<open>if/elif/else\<close> chains of \<^verbatim>\<open>loadOI\<close> (first, second and third baseline of
  the triangle \<open>k\<close>). \<open>sta2\<close> is the list of baseline names of the visibility tables,
  \<open>M\<close> the running list of missing baselines. Each returns the name chosen, its sign and
  the list \<open>M\<close> after the step. The conditions are those of the source, term by term.
\<close>

definition first_baseline ::
  "string list \<Rightarrow> string list \<Rightarrow> nat \<Rightarrow> string \<Rightarrow> string \<times> int \<times> string list" where
  "first_baseline sta2 M n k =
     (if take (2 * n) k \<in> set sta2 \<or> take (2 * n) k \<in> set M
      then (take (2 * n) k, 1, M)
      else if slice n (2 * n) k @ take n k \<in> set sta2 \<or> take (2 * n) k \<in> set M
      then (slice n (2 * n) k @ take n k, - 1, M)
      else (take (2 * n) k, 1, M @ [take (2 * n) k]))"

definition second_baseline ::
  "string list \<Rightarrow> string list \<Rightarrow> nat \<Rightarrow> string \<Rightarrow> string \<times> int \<times> string list" where
  "second_baseline sta2 M n k =
     (if drop n k \<in> set sta2 \<or> drop n k \<in> set M
      then (drop n k, 1, M)
      else if slice (2 * n) (3 * n) k @ slice n (2 * n) k \<in> set sta2
              \<or> slice (2 * n) (3 * n) k @ slice n (2 * n) k \<in> set M
      then (slice (2 * n) (3 * n) k @ slice n (2 * n) k, - 1, M)
      else (drop n k, 1, M @ [drop n k]))"

definition third_baseline ::
  "string list \<Rightarrow> string list \<Rightarrow> nat \<Rightarrow> string \<Rightarrow> string \<times> int \<times> string list" where
  "third_baseline sta2 M n k =
     (if slice (2 * n) (3 * n) k @ take n k \<in> set sta2
         \<or> slice (2 * n) (3 * n) k @ take n k \<in> set M
      then (slice (2 * n) (3 * n) k @ take n k, 1, M)
      else if take n k @ slice (2 * n) (3 * n) k \<in> set sta2
              \<or> take n k @ slice (2 * n) (3 * n) k \<in> set M
      then (take n k @ slice (2 * n) (3 * n) k, - 1, M)
      else (slice (2 * n) (3 * n) k @ take n k, 1, M @ [slice (2 * n) (3 * n) k @ take n k]))"

text \<open>
  One triangle: the lists \<open>t\<close> (names) and \<open>s\<close> (signs) that become its formula, and the
  ledger afterwards.
\<close>

definition find_triangle ::
  "string list \<Rightarrow> string list \<Rightarrow> nat \<Rightarrow> string \<Rightarrow> (int list \<times> string list) \<times> string list" where
  "find_triangle sta2 M n k =
     (case first_baseline sta2 M n k of (t0, s0, M0) \<Rightarrow>
      case second_baseline sta2 M0 n k of (t1, s1, M1) \<Rightarrow>
      case third_baseline sta2 M1 n k of (t2, s2, M2) \<Rightarrow>
        (([s0, s1, s2], [t0, t1, t2]), M2))"

text \<open>
  The loop \<^verbatim>\<open>for k in set(sta3)\<close>: \<open>ks\<close> lists the distinct triangle names in the order
  the loop visits them. The result pairs every triangle with its formula and gives the
  final ledger.
\<close>

fun find_triangles ::
  "string list \<Rightarrow> string list \<Rightarrow> nat \<Rightarrow> string list
     \<Rightarrow> (string \<times> int list \<times> string list) list \<times> string list" where
  "find_triangles sta2 M n [] = ([], M)"
| "find_triangles sta2 M n (k # ks) =
     (case find_triangle sta2 M n k of (f, M') \<Rightarrow>
      case find_triangles sta2 M' n ks of (fs, M'') \<Rightarrow> ((k, f) # fs, M''))"

section \<open>Closure reconciliation: missing baselines and epochs\<close>

text \<open>
  The second pass of \<^verbatim>\<open>loadOI\<close> over the triangles (\<^verbatim>\<open>for k in res['OI_T3'].keys()\<close>).
  \<open>isvis\<close> says that \<^verbatim>\<open>key\<close> is \<^verbatim>\<open>'OI_VIS'\<close> (otherwise \<^verbatim>\<open>'OI_VIS2'\<close>); \<open>WL\<close> is the wavelength
  grid \<^verbatim>\<open>res['WL']\<close>; \<open>t3\<close> is the table of the triangle.
\<close>

definition index_of :: "'a list \<Rightarrow> 'a \<Rightarrow> nat" where
  "index_of t m = length (takeWhile (\<lambda>x. x \<noteq> m) t)"

definition zeros :: "nat \<Rightarrow> nat \<Rightarrow> npfloat list list" where
  "zeros r c = replicate r (replicate c (Fin 0))"

definition ones :: "nat \<Rightarrow> nat \<Rightarrow> npfloat list list" where
  "ones r c = replicate r (replicate c (Fin 1))"

definition ones_bool :: "nat \<Rightarrow> nat \<Rightarrow> bool list list" where
  "ones_bool r c = replicate r (replicate c True)"

text \<open>\<^verbatim>\<open>u[:,None]/res['WL'][None,:]\<close>: one row per element of \<open>u\<close>, one column per channel.\<close>

definition over_wl :: "real list \<Rightarrow> real list \<Rightarrow> npfloat list list" where
  "over_wl u WL = map (\<lambda>x. map (\<lambda>w. fdiv (Fin x) (Fin w)) WL) u"

fun collect :: "(pyerr + 'a) list \<Rightarrow> pyerr + 'a list" where
  "collect [] = Inr []"
| "collect (x # xs) = bnd x (\<lambda>y. bnd (collect xs) (\<lambda>ys. Inr (y # ys)))"

definition bcast2_mat ::
  "('a \<Rightarrow> 'b \<Rightarrow> 'c) \<Rightarrow> 'a list list \<Rightarrow> 'b list list \<Rightarrow> pyerr + 'c list list" where
  "bcast2_mat f A B = bnd (bcast2 (bcast2 f) A B) collect"

text \<open>
  The coordinates of the fake baseline \<open>m\<close>, found at place \<^verbatim>\<open>t.index(m)\<close> of the formula
  (the branch for place 2 reads \<^verbatim>\<open>v2\<close> twice, as the source does).
\<close>

definition fake_uv :: "ext \<Rightarrow> nat \<Rightarrow> pyerr + real list \<times> real list" where
  "fake_uv t3 idx =
     (if idx = 0 then
        bnd (getVec t3 ''u1'') (\<lambda>u1. bnd (getVec t3 ''v1'') (\<lambda>v1. Inr (u1, v1)))
      else if idx = 1 then
        bnd (getVec t3 ''u2'') (\<lambda>u2. bnd (getVec t3 ''v2'') (\<lambda>v2. Inr (u2, v2)))
      else
        bnd (getVec t3 ''u1'') (\<lambda>u1. bnd (getVec t3 ''u2'') (\<lambda>u2.
        bnd (bcast2 (\<lambda>a b. - a - b) u1 u2) (\<lambda>u.
        bnd (getVec t3 ''v2'') (\<lambda>v2.
        bnd (bcast2 (\<lambda>a b. - a - b) v2 v2) (\<lambda>v. Inr (u, v)))))))"

text \<open>The dictionary \<^verbatim>\<open>tmp\<close> built for one missing baseline, keys in the order of the source.\<close>

definition fake_baseline :: "bool \<Rightarrow> real list \<Rightarrow> ext \<Rightarrow> nat \<Rightarrow> pyerr + ext" where
  "fake_baseline isvis WL t3 idx =
     bnd (fake_uv t3 idx) (\<lambda>(u, v).
     bnd (getVec t3 ''MJD'') (\<lambda>mjd.
     bnd (bcast2_mat (\<lambda>a b. fsqrt (fadd (fmul a a) (fmul b b))) (over_wl u WL) (over_wl v WL))
       (\<lambda>bwl.
       Inr ((if isvis
             then [(''|V|'', Mat (zeros (length mjd) (length WL))),
                   (''E|V|'', Mat (ones (length mjd) (length WL))),
                   (''PHI'', Mat (zeros (length mjd) (length WL))),
                   (''EPHI'', Mat (ones (length mjd) (length WL)))]
             else [(''V2'', Mat (zeros (length mjd) (length WL))),
                   (''EV2'', Mat (ones (length mjd) (length WL)))])
            @ [(''u'', Vec u), (''v'', Vec v),
               (''u/wl'', Mat (over_wl u WL)), (''v/wl'', Mat (over_wl v WL)),
               (''B/wl'', Mat bwl),
               (''FLAG'', Flags (ones_bool (length mjd) (length WL))),
               (''MJD'', Vec mjd)]))))"

text \<open>
  \<^verbatim>\<open>A = {}; for m in M: if m in t: ... A[m] = tmp\<close>, then
  \<^verbatim>\<open>for m in A: res[key][m] = A[m]; M.remove(m)\<close>.
\<close>

fun fake_tables ::
  "bool \<Rightarrow> real list \<Rightarrow> ext \<Rightarrow> string list \<Rightarrow> string list \<Rightarrow> (string \<times> ext) list
     \<Rightarrow> pyerr + (string \<times> ext) list" where
  "fake_tables isvis WL t3 t [] A = Inr A"
| "fake_tables isvis WL t3 t (m # ms) A =
     (if m \<in> set t
      then bnd (fake_baseline isvis WL t3 (index_of t m))
             (\<lambda>tmp. fake_tables isvis WL t3 t ms (AList.update m tmp A))
      else fake_tables isvis WL t3 t ms A)"

fun add_fake ::
  "(string \<times> ext) list \<Rightarrow> (string \<times> ext) list \<Rightarrow> string list
     \<Rightarrow> (string \<times> ext) list \<times> string list" where
  "add_fake [] vis M = (vis, M)"
| "add_fake ((m, tmp) # A) vis M = add_fake A (AList.update m tmp vis) (remove1 m M)"

definition add_missing ::
  "bool \<Rightarrow> real list \<Rightarrow> ext \<Rightarrow> string list \<Rightarrow> (string \<times> ext) list \<Rightarrow> string list
     \<Rightarrow> pyerr + (string \<times> ext) list \<times> string list" where
  "add_missing isvis WL t3 t vis M =
     bnd (fake_tables isvis WL t3 t M []) (\<lambda>A. Inr (add_fake A vis M))"

text \<open>
  Matching one epoch \<open>mjd\<close> (row \<open>i\<close> of the triangle) against the table \<open>tb\<close> of leg \<open>j\<close>
  (0, 1 or 2), whose sign is \<open>s\<close>. \<^verbatim>\<open>np.argmin\<close> gives the first index of the minimum;
  Python's \<^verbatim>\<open>min\<close> of an empty sequence raises ValueError.
\<close>

fun argmin :: "real list \<Rightarrow> nat" where
  "argmin [] = 0"
| "argmin [x] = 0"
| "argmin (x # y # ys) = (if x \<le> min_list (y # ys) then 0 else Suc (argmin (y # ys)))"

text \<open>
  What a miss appends for leg \<open>j\<close>: the elements added to \<^verbatim>\<open>u\<close> and \<^verbatim>\<open>v\<close> and the rows added
  to \<^verbatim>\<open>u/wl\<close>, \<^verbatim>\<open>v/wl\<close> and \<^verbatim>\<open>B/wl\<close>, with the expressions of the three copies of the source
  (the row of \<^verbatim>\<open>v/wl\<close> of the third leg carries no sign there).
\<close>

definition leg_rows ::
  "nat \<Rightarrow> int \<Rightarrow> ext \<Rightarrow> nat \<Rightarrow> real list
     \<Rightarrow> pyerr + real \<times> real \<times> npfloat list \<times> npfloat list \<times> npfloat list" where
  "leg_rows j s t3 i WL =
     (if j = 0 then
        bnd (bnd (getVec t3 ''u1'') (\<lambda>x. nth_e x i)) (\<lambda>u1.
        bnd (bnd (getVec t3 ''v1'') (\<lambda>x. nth_e x i)) (\<lambda>v1.
          Inr (of_int s * u1, of_int s * v1,
               map (\<lambda>w. fmul (Fin (of_int s)) (fdiv (Fin u1) (Fin w))) WL,
               map (\<lambda>w. fmul (Fin (of_int s)) (fdiv (Fin v1) (Fin w))) WL,
               map (\<lambda>w. fdiv (Fin (sqrt (u1 ^ 2 + v1 ^ 2))) (Fin w)) WL)))
      else if j = 1 then
        bnd (bnd (getVec t3 ''u2'') (\<lambda>x. nth_e x i)) (\<lambda>u2.
        bnd (bnd (getVec t3 ''v2'') (\<lambda>x. nth_e x i)) (\<lambda>v2.
          Inr (of_int s * u2, of_int s * v2,
               map (\<lambda>w. fmul (Fin (of_int s)) (fdiv (Fin u2) (Fin w))) WL,
               map (\<lambda>w. fmul (Fin (of_int s)) (fdiv (Fin v2) (Fin w))) WL,
               map (\<lambda>w. fdiv (Fin (sqrt (u2 ^ 2 + v2 ^ 2))) (Fin w)) WL)))
      else
        bnd (bnd (getVec t3 ''u1'') (\<lambda>x. nth_e x i)) (\<lambda>u1.
        bnd (bnd (getVec t3 ''u2'') (\<lambda>x. nth_e x i)) (\<lambda>u2.
        bnd (bnd (getVec t3 ''v1'') (\<lambda>x. nth_e x i)) (\<lambda>v1.
        bnd (bnd (getVec t3 ''v2'') (\<lambda>x. nth_e x i)) (\<lambda>v2.
          Inr (- of_int s * u1 - of_int s * u2, - of_int s * v1 - of_int s * v2,
               map (\<lambda>w. fmul (Fin (of_int s)) (fdiv (Fin (- u1 - u2)) (Fin w))) WL,
               map (\<lambda>w. fdiv (Fin (- v1 - v2)) (Fin w)) WL,
               map (\<lambda>w. fdiv (Fin (sqrt ((u1 + u2) ^ 2 + (v1 + v2) ^ 2))) (Fin w)) WL))))))"

definition app_vec :: "string \<Rightarrow> real \<Rightarrow> ext \<Rightarrow> pyerr + ext" where
  "app_vec k x tb = bnd (getVec tb k) (\<lambda>v. Inr (AList.update k (Vec (v @ [x])) tb))"

definition app_mat :: "string \<Rightarrow> npfloat list \<Rightarrow> ext \<Rightarrow> pyerr + ext" where
  "app_mat k row tb =
     bnd (getMat tb k) (\<lambda>A. bnd (append_rows A [row]) (\<lambda>A'. Inr (AList.update k (Mat A') tb)))"

definition app_flags :: "string \<Rightarrow> bool list \<Rightarrow> ext \<Rightarrow> pyerr + ext" where
  "app_flags k row tb =
     bnd (getFlags tb k)
       (\<lambda>A. bnd (append_rows A [row]) (\<lambda>A'. Inr (AList.update k (Flags A') tb)))"

definition set_PA :: "ext \<Rightarrow> pyerr + ext" where
  "set_PA tb =
     bnd (getMat tb ''v/wl'') (\<lambda>vwl. bnd (getMat tb ''u/wl'') (\<lambda>uwl.
     bnd (bcast2_mat angle_deg vwl uwl) (\<lambda>pa. Inr (AList.update ''PA'' (Mat pa) tb))))"

definition fake_row ::
  "bool \<Rightarrow> real list \<Rightarrow> real \<Rightarrow> real \<times> real \<times> npfloat list \<times> npfloat list \<times> npfloat list
     \<Rightarrow> ext \<Rightarrow> pyerr + ext" where
  "fake_row isvis WL mjd r tb =
     (case r of (u, v, uwl, vwl, bwl) \<Rightarrow>
      bnd (app_vec ''MJD'' mjd tb) (\<lambda>tb.
      bnd (app_vec ''u'' u tb) (\<lambda>tb.
      bnd (app_vec ''v'' v tb) (\<lambda>tb.
      bnd (app_mat ''u/wl'' uwl tb) (\<lambda>tb.
      bnd (app_mat ''v/wl'' vwl tb) (\<lambda>tb.
      bnd (set_PA tb) (\<lambda>tb.
      bnd (app_mat ''B/wl'' bwl tb) (\<lambda>tb.
      bnd (app_flags ''FLAG'' (map (\<lambda>w. True) WL) tb) (\<lambda>tb.
      if isvis then
        bnd (app_mat ''|V|'' (map (\<lambda>w. Fin (w * 0)) WL) tb) (\<lambda>tb.
        bnd (app_mat ''E|V|'' (map (\<lambda>w. Fin (w * 0 + 1)) WL) tb) (\<lambda>tb.
        bnd (app_mat ''PHI'' (map (\<lambda>w. Fin (w * 0)) WL) tb) (\<lambda>tb.
        app_mat ''EPHI'' (map (\<lambda>w. Fin (w * 0 + 1)) WL) tb)))
      else
        bnd (app_mat ''V2'' (map (\<lambda>w. Fin (w * 0)) WL) tb) (\<lambda>tb.
        app_mat ''EV2'' (map (\<lambda>w. Fin (w * 0 + 1)) WL) tb))))))))))"

definition match_leg ::
  "bool \<Rightarrow> real list \<Rightarrow> nat \<Rightarrow> int \<Rightarrow> ext \<Rightarrow> nat \<Rightarrow> real \<Rightarrow> ext \<Rightarrow> pyerr + nat \<times> ext" where
  "match_leg isvis WL j s t3 i mjd tb =
     bnd (getVec tb ''MJD'') (\<lambda>M.
       if M = [] then Inl ValueError
       else if min_list (map (\<lambda>m. \<bar>m - mjd\<bar>) M) < 1 / 10000
       then Inr (argmin (map (\<lambda>m. \<bar>m - mjd\<bar>) M), tb)
       else bnd (leg_rows j s t3 i WL) (\<lambda>r.
            bnd (fake_row isvis WL mjd r tb) (\<lambda>tb'. Inr (length M, tb'))))"

text \<open>
  One epoch of a triangle against its three legs, in turn; then all the epochs
  (\<^verbatim>\<open>for i, mjd in enumerate(res['OI_T3'][k]['MJD'])\<close>), collecting \<^verbatim>\<open>w0\<close>, \<^verbatim>\<open>w1\<close>, \<^verbatim>\<open>w2\<close>.
\<close>

definition match_in ::
  "bool \<Rightarrow> real list \<Rightarrow> int list \<Rightarrow> string list \<Rightarrow> ext \<Rightarrow> nat \<Rightarrow> real \<Rightarrow> nat
     \<Rightarrow> (string \<times> ext) list \<Rightarrow> pyerr + nat \<times> (string \<times> ext) list" where
  "match_in isvis WL s t t3 i mjd j vis =
     bnd (nth_e t j) (\<lambda>tj. bnd (getTable vis tj) (\<lambda>tb. bnd (nth_e s j) (\<lambda>sj.
     bnd (match_leg isvis WL j sj t3 i mjd tb) (\<lambda>(w, tb').
       Inr (w, AList.update tj tb' vis)))))"

fun match_epochs ::
  "bool \<Rightarrow> real list \<Rightarrow> int list \<Rightarrow> string list \<Rightarrow> ext \<Rightarrow> nat \<Rightarrow> real list
     \<Rightarrow> (string \<times> ext) list \<Rightarrow> pyerr + nat list list \<times> (string \<times> ext) list" where
  "match_epochs isvis WL s t t3 i [] vis = Inr ([[], [], []], vis)"
| "match_epochs isvis WL s t t3 i (mjd # rest) vis =
     bnd (match_in isvis WL s t t3 i mjd 0 vis) (\<lambda>(a, vis).
     bnd (match_in isvis WL s t t3 i mjd 1 vis) (\<lambda>(b, vis).
     bnd (match_in isvis WL s t t3 i mjd 2 vis) (\<lambda>(c, vis).
     bnd (match_epochs isvis WL s t t3 (Suc i) rest vis) (\<lambda>(w, vis).
       Inr ([a # w ! 0, b # w ! 1, c # w ! 2], vis)))))"

text \<open>
  One triangle \<open>k\<close>: the missing baselines it refers to are added, its epochs are matched,
  its formula becomes \<^verbatim>\<open>[s, t, w0, w1, w2]\<close>. Then the loop over all the triangles, which
  hands the tables of \<^verbatim>\<open>res[key]\<close> and the ledger \<open>M\<close> from one triangle to the next.
\<close>

definition match_triangle ::
  "bool \<Rightarrow> real list \<Rightarrow> ext \<Rightarrow> (string \<times> ext) list \<Rightarrow> string list
     \<Rightarrow> pyerr + ext \<times> (string \<times> ext) list \<times> string list" where
  "match_triangle isvis WL t3 vis M =
     (case map_of t3 ''formula'' of
        None \<Rightarrow> Inl KeyError
      | Some (Formula s t w) \<Rightarrow>
          bnd (add_missing isvis WL t3 t vis M) (\<lambda>(vis, M).
          bnd (getVec t3 ''MJD'') (\<lambda>mjds.
          bnd (match_epochs isvis WL s t t3 0 mjds vis) (\<lambda>(w, vis).
            Inr (AList.update ''formula'' (Formula s t w) t3, vis, M))))
      | Some _ \<Rightarrow> Inl TypeError)"

fun match_T3 ::
  "bool \<Rightarrow> real list \<Rightarrow> (string \<times> ext) list \<Rightarrow> (string \<times> ext) list \<Rightarrow> string list
     \<Rightarrow> pyerr + (string \<times> ext) list \<times> (string \<times> ext) list \<times> string list" where
  "match_T3 isvis WL [] vis M = Inr ([], vis, M)"
| "match_T3 isvis WL ((k, t3) # rest) vis M =
     bnd (match_triangle isvis WL t3 vis M) (\<lambda>(t3', vis, M).
     bnd (match_T3 isvis WL rest vis M) (\<lambda>(rest', vis, M).
       Inr ((k, t3') # rest', vis, M)))"

section \<open>Shapes of tables\<close>

text \<open>
  The shape of a 2D array held as a list of rows, and what it means for a table to hold a
  1D array of \<open>r\<close> elements or a 2D array of \<open>r\<close> rows and \<open>c\<close> columns under a key.
  \<open>vis_table_ok isvis r c tb\<close>: \<open>tb\<close> has the fields of a baseline table of \<^verbatim>\<open>OI_VIS\<close>
  (\<open>isvis\<close>) or \<^verbatim>\<open>OI_VIS2\<close> that the epoch matching reads and extends, with \<open>r\<close> rows and
  \<open>c\<close> channels. \<open>t3_coords_ok r t3\<close>: the triangle table has its coordinates and epochs,
  \<open>r\<close> of each.
\<close>

definition mat_shape :: "nat \<Rightarrow> nat \<Rightarrow> 'a list list \<Rightarrow> bool" where
  "mat_shape r c A = (length A = r \<and> list_all (\<lambda>row. length row = c) A)"

definition is_vec :: "nat \<Rightarrow> ext \<Rightarrow> string \<Rightarrow> bool" where
  "is_vec r tb k = (case map_of tb k of Some (Vec v) \<Rightarrow> length v = r | _ \<Rightarrow> False)"

definition is_mat :: "nat \<Rightarrow> nat \<Rightarrow> ext \<Rightarrow> string \<Rightarrow> bool" where
  "is_mat r c tb k = (case map_of tb k of Some (Mat A) \<Rightarrow> mat_shape r c A | _ \<Rightarrow> False)"

definition is_flags :: "nat \<Rightarrow> nat \<Rightarrow> ext \<Rightarrow> string \<Rightarrow> bool" where
  "is_flags r c tb k = (case map_of tb k of Some (Flags A) \<Rightarrow> mat_shape r c A | _ \<Rightarrow> False)"

definition value_keys :: "bool \<Rightarrow> string list" where
  "value_keys isvis = (if isvis then [''|V|'', ''PHI''] else [''V2''])"

definition error_keys :: "bool \<Rightarrow> string list" where
  "error_keys isvis = (if isvis then [''E|V|'', ''EPHI''] else [''EV2''])"

definition vis_table_ok :: "bool \<Rightarrow> nat \<Rightarrow> nat \<Rightarrow> ext \<Rightarrow> bool" where
  "vis_table_ok isvis r c tb =
     (list_all (is_vec r tb) [''MJD'', ''u'', ''v''] \<and>
      list_all (is_mat r c tb)
        ([''u/wl'', ''v/wl'', ''B/wl''] @ value_keys isvis @ error_keys isvis) \<and>
      is_flags r c tb ''FLAG'')"

definition t3_coords_ok :: "nat \<Rightarrow> ext \<Rightarrow> bool" where
  "t3_coords_ok r t3 = list_all (is_vec r t3) [''u1'', ''v1'', ''u2'', ''v2'', ''MJD'']"

text \<open>A triangle table and a squared-visibility table of one epoch and one channel.\<close>

definition ex_t3 :: ext where
  "ex_t3 = [(''u1'', Vec [1]), (''v1'', Vec [2]), (''u2'', Vec [3]), (''v2'', Vec [4]),
            (''MJD'', Vec [1])]"

definition ex_vis2 :: ext where
  "ex_vis2 = [(''V2'', Mat [[Fin 5]]), (''EV2'', Mat [[Fin 6]]), (''u'', Vec [7]), (''v'', Vec [8]),
              (''MJD'', Vec [1]), (''u/wl'', Mat [[Fin 7]]), (''v/wl'', Mat [[Fin 8]]),
              (''B/wl'', Mat [[Fin 9]]), (''FLAG'', Flags [[False]])]"

text \<open>
  \<^verbatim>\<open>res[key][m][k]\<close> after the pass over the triangles: the field \<open>k\<close> of the baseline \<open>m\<close>.
\<close>

definition reconciled_field ::
  "bool \<Rightarrow> real list \<Rightarrow> (string \<times> ext) list \<Rightarrow> (string \<times> ext) list \<Rightarrow> string list
     \<Rightarrow> string \<Rightarrow> string \<Rightarrow> pyerr + field" where
  "reconciled_field isvis WL T3 vis M m k =
     bnd (match_T3 isvis WL T3 vis M) (\<lambda>(T3', vis', M').
     bnd (getTable vis' m) (\<lambda>tb.
       case map_of tb k of None \<Rightarrow> Inl KeyError | Some f \<Rightarrow> Inr f))"

text \<open>
  Two triangles that share the leg AB, which no visibility table holds; their epochs are
  0.00001 apart.
\<close>

definition ex_ABC :: ext where
  "ex_ABC = [(''MJD'', Vec [1]), (''u1'', Vec [1]), (''v1'', Vec [2]), (''u2'', Vec [3]),
             (''v2'', Vec [4]), (''formula'', Formula [1, 1, 1] [''AB'', ''BC'', ''CA''] [])]"

definition ex_ABD :: ext where
  "ex_ABD = [(''MJD'', Vec [100001 / 100000]), (''u1'', Vec [1]), (''v1'', Vec [2]),
             (''u2'', Vec [5]), (''v2'', Vec [6]),
             (''formula'', Formula [1, 1, 1] [''AB'', ''BD'', ''DA''] [])]"

section \<open>The error filter\<close>

text \<open>
  The configuration \<^verbatim>\<open>filt\<close> (the \<^verbatim>\<open>'fit'\<close> dictionary of a dataset) as far as \<^verbatim>\<open>_filtErr\<close> and
  \<^verbatim>\<open>_filtFlag\<close> read it: a dictionary of rule dictionaries (\<^verbatim>\<open>'max error'\<close>,
  \<^verbatim>\<open>'max relative error'\<close>, \<^verbatim>\<open>'min error'\<close>, \<^verbatim>\<open>'mult error'\<close>, \<^verbatim>\<open>'min relative error'\<close>), each
  from the name of an observable to a number. Both levels are Python dictionaries that the
  functions receive by reference, so \<open>filtFlag\<close> returns the configuration as it is after
  the call, also when the call raises.
\<close>

type_synonym rules = "(string \<times> npfloat) list"

type_synonym fit = "(string \<times> rules) list"

text \<open>\<^verbatim>\<open>ext['FLUX'].mean()\<close>: the mean over all the elements; \<^verbatim>\<open>0/0\<close>, NaN, for an empty array.\<close>

definition mean_all :: "npfloat list \<Rightarrow> npfloat" where
  "mean_all xs = fdiv (fsum xs) (Fin (real (length xs)))"

definition field_mean :: "field \<Rightarrow> pyerr + npfloat" where
  "field_mean f =
     (case f of
        Mat A \<Rightarrow> Inr (mean_all (concat A))
      | Vec v \<Rightarrow> Inr (mean_all (map Fin v))
      | Flags A \<Rightarrow> Inr (mean_all (map (\<lambda>b. Fin (if b then 1 else 0)) (concat A)))
      | _ \<Rightarrow> Inl TypeError)"

text \<open>
  \<^verbatim>\<open>flag += C\<close> on boolean arrays is an in-place elementwise or: \<open>C\<close> is broadcast to the
  shape of \<^verbatim>\<open>flag\<close>, and it is an error if the result has another shape.
\<close>

definition or_into :: "bool list list \<Rightarrow> bool list list \<Rightarrow> pyerr + bool list list" where
  "or_into F C =
     bnd (bcast2_mat (\<or>) F C)
       (\<lambda>R. if map length R = map length F then Inr R else Inl ValueError)"

text \<open>One turn of \<^verbatim>\<open>for k in filt['max error']\<close>, with the rule dictionary \<open>mx\<close>.\<close>

definition max_error_step ::
  "ext \<Rightarrow> rules \<Rightarrow> string \<Rightarrow> bool list list \<Rightarrow> pyerr + bool list list" where
  "max_error_step e mx k0 flag =
     (let k = (if k0 = ''DPHI'' then ''PHI'' else k0) in
      case map_of mx k of
        None \<Rightarrow> Inr flag
      | Some lm \<Rightarrow>
          (case map_of e (CHR ''E'' # k) of
             None \<Rightarrow> Inr flag
           | Some (Mat E) \<Rightarrow> or_into flag (map (map (\<lambda>x. fge x lm)) E)
           | Some _ \<Rightarrow> Inl TypeError))"

text \<open>One turn of \<^verbatim>\<open>for k in filt['max relative error']\<close>.\<close>

definition max_rel_error_step ::
  "ext \<Rightarrow> rules \<Rightarrow> string \<Rightarrow> bool list list \<Rightarrow> pyerr + bool list list" where
  "max_rel_error_step e mr k flag =
     (case map_of mr k of
        None \<Rightarrow> Inr flag
      | Some lm \<Rightarrow>
          (case map_of e (CHR ''E'' # k) of
             None \<Rightarrow> Inr flag
           | Some (Mat E) \<Rightarrow>
               bnd (getMat e k) (\<lambda>X.
               bnd (bcast2_mat (\<lambda>x y. fge x (fmul lm (fabs y))) E X) (\<lambda>C. or_into flag C))
           | Some _ \<Rightarrow> Inl TypeError))"

fun for_keys ::
  "(string \<Rightarrow> bool list list \<Rightarrow> pyerr + bool list list) \<Rightarrow> string list \<Rightarrow> bool list list
     \<Rightarrow> pyerr + bool list list" where
  "for_keys step [] flag = Inr flag"
| "for_keys step (k # ks) flag = bnd (step k flag) (for_keys step ks)"

text \<open>
  The assignment \<^verbatim>\<open>filt['max error']['FLUX'] = filt['max error']['NFLUX']*ext['FLUX'].mean()\<close>
  of \<^verbatim>\<open>_filtFlag\<close>, made when the table has a \<^verbatim>\<open>'FLUX'\<close> key and the rules of \<^verbatim>\<open>'max error'\<close> have
  an \<^verbatim>\<open>'NFLUX'\<close> key.
\<close>

definition flux_kludge :: "ext \<Rightarrow> fit \<Rightarrow> pyerr + fit" where
  "flux_kludge e filt =
     (case (map_of e ''FLUX'', map_of filt ''max error'') of
        (Some f, Some mx) \<Rightarrow>
          (case map_of mx ''NFLUX'' of
             None \<Rightarrow> Inr filt
           | Some nf \<Rightarrow>
               bnd (field_mean f) (\<lambda>mu.
                 Inr (AList.update ''max error'' (AList.update ''FLUX'' (fmul nf mu) mx) filt)))
      | _ \<Rightarrow> Inr filt)"

definition filtFlag :: "ext \<Rightarrow> fit \<Rightarrow> (pyerr + bool list list) \<times> fit" where
  "filtFlag e filt =
     (case getFlags e ''FLAG'' of
        Inl err \<Rightarrow> (Inl err, filt)
      | Inr flag \<Rightarrow>
          if map_of filt ''max error'' = None \<and> map_of filt ''max relative error'' = None
          then (Inr flag, filt)
          else
            (case flux_kludge e filt of
               Inl err \<Rightarrow> (Inl err, filt)
             | Inr filt' \<Rightarrow>
                 (bnd (case map_of filt' ''max error'' of
                         None \<Rightarrow> Inr flag
                       | Some mx \<Rightarrow> for_keys (max_error_step e mx) (map fst mx) flag)
                    (\<lambda>flag.
                      case map_of filt' ''max relative error'' of
                        None \<Rightarrow> Inr flag
                      | Some mr \<Rightarrow> for_keys (max_rel_error_step e mr) (map fst mr) flag),
                  filt')))"

text \<open>
  \<^verbatim>\<open>_filtErr(t, ext, filt)\<close>: the error column \<^verbatim>\<open>'E'+t\<close> after the multiplicative rule, the floor
  and the relative floor. \<^verbatim>\<open>np.maximum\<close> gives NaN when either argument is NaN.
\<close>

fun fmaximum :: "npfloat \<Rightarrow> npfloat \<Rightarrow> npfloat" where
  "fmaximum NaN _ = NaN"
| "fmaximum _ NaN = NaN"
| "fmaximum a b = (if fge a b then a else b)"

definition rule_of :: "fit \<Rightarrow> string \<Rightarrow> string \<Rightarrow> npfloat option" where
  "rule_of filt r t = (case map_of filt r of None \<Rightarrow> None | Some d \<Rightarrow> map_of d t)"

definition filtErr :: "string \<Rightarrow> ext \<Rightarrow> fit \<Rightarrow> pyerr + npfloat list list" where
  "filtErr t e filt =
     bnd (getMat e (CHR ''E'' # t)) (\<lambda>err.
     bnd (Inr (case rule_of filt ''mult error'' t of
                 None \<Rightarrow> err | Some f \<Rightarrow> map (map (\<lambda>x. fmul x f)) err)) (\<lambda>err.
     bnd (Inr (case rule_of filt ''min error'' t of
                 None \<Rightarrow> err | Some m \<Rightarrow> map (map (fmaximum m)) err)) (\<lambda>err.
       case rule_of filt ''min relative error'' t of
         None \<Rightarrow> Inr err
       | Some m \<Rightarrow>
           bnd (getMat e t) (\<lambda>X.
           bcast2_mat (\<lambda>x y. fmaximum (fmul m (fabs x)) y) X err))))"

text \<open>Two flux tables of one epoch and two channels, and a configuration.\<close>

definition ex_flux1 :: ext where
  "ex_flux1 = [(''FLUX'', Mat [[Fin 2, Fin 4]]), (''EFLUX'', Mat [[Fin (1/10), Fin 1]]),
               (''FLAG'', Flags [[False, False]]), (''MJD'', Vec [1])]"

definition ex_flux2 :: ext where
  "ex_flux2 = [(''FLUX'', Mat [[Fin 10, Fin 10]]), (''EFLUX'', Mat [[Fin (1/10), Fin 1]]),
               (''FLAG'', Flags [[False, False]]), (''MJD'', Vec [1])]"

definition ex_fit :: fit where
  "ex_fit = [(''max error'', [(''NFLUX'', Fin (1/10))])]"

section \<open>Rebinning\<close>

text \<open>
  \<^verbatim>\<open>np.median(np.diff(x))\<close>: the differences of neighbours, and the median of a 1D array
  (NaN for an empty array, the mean of the two middle elements for an even length).
\<close>

definition diff :: "real list \<Rightarrow> real list" where
  "diff x = map2 (\<lambda>a b. b - a) x (tl x)"

definition median :: "real list \<Rightarrow> npfloat" where
  "median xs =
     (let s = sort xs; n = length s in
      if n = 0 then NaN
      else if odd n then Fin (s ! (n div 2))
      else Fin ((s ! (n div 2 - 1) + s ! (n div 2)) / 2))"

text \<open>One element of \<^verbatim>\<open>k = np.exp(-(X-x0)**2/(0.6*dx)**2)\<close>.\<close>

definition kernel :: "npfloat \<Rightarrow> real \<Rightarrow> real \<Rightarrow> npfloat" where
  "kernel dx x0 Xj =
     fexp (fdiv (Fin (- ((Xj - x0) ^ 2))) (fmul (fmul (Fin (6 / 10)) dx) (fmul (Fin (6 / 10)) dx)))"

text \<open>
  \<^verbatim>\<open>_binVec(x, X, Y, E)\<close>: for every \<open>x0\<close> of the new grid \<open>x\<close> the value
  \<^verbatim>\<open>np.sum(k*Y/E)/np.sum(k/E)\<close>; \<open>E\<close> is all ones when none is given. The products and
  quotients are elementwise with broadcasting. (The argument \<^verbatim>\<open>medFilt\<close> is not read before
  the function returns.)
\<close>

definition binVec_at ::
  "npfloat \<Rightarrow> real list \<Rightarrow> npfloat list \<Rightarrow> npfloat list \<Rightarrow> real \<Rightarrow> pyerr + npfloat" where
  "binVec_at dx X Y E x0 =
     bnd (bcast2 fmul (map (kernel dx x0) X) Y) (\<lambda>kY.
     bnd (bcast2 fdiv kY E) (\<lambda>kYE.
     bnd (bcast2 fdiv (map (kernel dx x0) X) E) (\<lambda>kE.
       Inr (fdiv (fsum kYE) (fsum kE)))))"

definition binVec ::
  "real list \<Rightarrow> real list \<Rightarrow> npfloat list \<Rightarrow> npfloat list option \<Rightarrow> pyerr + npfloat list" where
  "binVec x X Y Eo =
     collect (map (binVec_at (median (diff x)) X Y
                     (case Eo of None \<Rightarrow> replicate (length Y) (Fin 1) | Some E \<Rightarrow> E)) x)"

text \<open>
  \<^verbatim>\<open>a[w]\<close> for a boolean mask \<open>w\<close>: the elements of \<open>a\<close> where \<open>w\<close> is true; IndexError when
  the lengths differ.
\<close>

definition masked :: "bool list \<Rightarrow> 'a list \<Rightarrow> pyerr + 'a list" where
  "masked w a =
     (if length w = length a then Inr (map snd (filter fst (zip w a))) else Inl IndexError)"

text \<open>
  One turn of the loop of \<^verbatim>\<open>binOI(_wl, WL, T, F, E)\<close>, for the row \<open>Trow\<close> of the data, the
  row \<open>Frow\<close> of the flags and, when errors are given, the row of the errors (or the
  exception that reading it raises). With errors, any exception of the call of
  \<^verbatim>\<open>_binVec\<close> and of its arguments is caught and the row is NaN.
\<close>

definition binOI_row ::
  "real list \<Rightarrow> real list \<Rightarrow> npfloat list \<Rightarrow> bool list \<Rightarrow> (pyerr + npfloat list) option
     \<Rightarrow> pyerr + npfloat list \<times> bool list" where
  "binOI_row wl WL Trow Frow Eo =
     bnd (binVec wl WL (map (\<lambda>b. Fin (if b then 1 else 0)) Frow) None) (\<lambda>fl.
       case Eo of
         None \<Rightarrow>
           bnd (masked (map Not Frow) WL) (\<lambda>X.
           bnd (masked (map Not Frow) Trow) (\<lambda>Y.
           bnd (binVec wl X Y None) (\<lambda>r. Inr (r, map (\<lambda>v. fgt v (Fin (1 / 2))) fl))))
       | Some Erow \<Rightarrow>
           (case bnd (masked (map Not Frow) WL) (\<lambda>X.
                 bnd (masked (map Not Frow) Trow) (\<lambda>Y.
                 bnd Erow (\<lambda>Er. bnd (masked (map Not Frow) Er) (\<lambda>E.
                   binVec wl X Y (Some E))))) of
              Inl err \<Rightarrow> Inr (replicate (length wl) NaN, map (\<lambda>v. fgt v (Fin (1 / 2))) fl)
            | Inr r \<Rightarrow> Inr (r, map (\<lambda>v. fgt v (Fin (1 / 2))) fl)))"

fun binOI_rows ::
  "real list \<Rightarrow> real list \<Rightarrow> npfloat list list \<Rightarrow> bool list list \<Rightarrow> npfloat list list option
     \<Rightarrow> nat \<Rightarrow> pyerr + (npfloat list \<times> bool list) list" where
  "binOI_rows wl WL [] F E i = Inr []"
| "binOI_rows wl WL (Trow # T) F E i =
     bnd (nth_e F i) (\<lambda>Frow.
     bnd (binOI_row wl WL Trow Frow (case E of None \<Rightarrow> None | Some E \<Rightarrow> Some (nth_e E i)))
       (\<lambda>r.
     bnd (binOI_rows wl WL T F E (Suc i)) (\<lambda>rs. Inr (r # rs))))"

text \<open>\<^verbatim>\<open>binOI\<close> with \<^verbatim>\<open>retFlag=True\<close>: the binned data and the binned flags.\<close>

definition binOI ::
  "real list \<Rightarrow> real list \<Rightarrow> npfloat list list \<Rightarrow> bool list list \<Rightarrow> npfloat list list option
     \<Rightarrow> pyerr + npfloat list list \<times> bool list list" where
  "binOI wl WL T F E =
     bnd (binOI_rows wl WL T F E 0) (\<lambda>rs. Inr (map fst rs, map snd rs))"

section \<open>Loading files\<close>

text \<open>
  What \<^verbatim>\<open>loadOI\<close> reads of a file before it builds any table (lines 49 to 145): of every
  extension the header keys \<^verbatim>\<open>EXTNAME\<close> and \<^verbatim>\<open>INSNAME\<close> (absent or a string), the rows of an
  \<^verbatim>\<open>OI_TARGET\<close> table (name and identifier) and the rows of an \<^verbatim>\<open>OI_WAVELENGTH\<close> table
  (\<^verbatim>\<open>EFF_WAVE\<close> and \<^verbatim>\<open>EFF_BAND\<close>). A file is its name and the list of its extensions, as the
  reader \<^verbatim>\<open>fits.open\<close> returns it.
\<close>

record hdu =
  EXTNAME :: "string option"
  INSNAME :: "string option"
  TARGET :: "(string \<times> int) list"
  EFF :: "(real \<times> real) list"




text \<open>
  The first loop over the extensions: the instrument names of the wavelength tables, in
  order (\<^verbatim>\<open>hdu.header['INSNAME']\<close> raises KeyError when the key is absent), and the dictionary
  \<^verbatim>\<open>targets\<close> of the last \<^verbatim>\<open>OI_TARGET\<close> table, from the stripped name to the identifiers under
  that name; \<open>None\<close> when no such table assigns the variable.
\<close>

fun instruments_of :: "hdu list \<Rightarrow> pyerr + string list" where
  "instruments_of [] = Inr []"
| "instruments_of (h # hs) =
     (if EXTNAME h = Some ''OI_WAVELENGTH''
      then (case INSNAME h of
              None \<Rightarrow> Inl KeyError
            | Some ins \<Rightarrow> bnd (instruments_of hs) (\<lambda>r. Inr (ins # r)))
      else instruments_of hs)"





text \<open>
  The second loop (lines 125 to 144): the last wavelength table of the instrument, if
  any; then the assertion \<^verbatim>\<open>'WL' in res\<close>.
\<close>

fun wavelengths :: "hdu list \<Rightarrow> string \<Rightarrow> (real \<times> real) list option \<Rightarrow> (real \<times> real) list option" where
  "wavelengths [] ins w = w"
| "wavelengths (h # hs) ins w =
     wavelengths hs ins
       (if EXTNAME h = Some ''OI_WAVELENGTH'' \<and> INSNAME h = Some ins then Some (EFF h) else w)"





section \<open>Properties of the legs\<close>

text \<open>
  Claim C5. The claim: for each leg the forward name is taken with sign +1 when it is
  among the known baselines or in the ledger, otherwise the reverse name with sign -1
  when the reverse name is known or in the ledger, otherwise the forward name is recorded
  in the ledger, so that a missing baseline is fabricated once whatever the orientation in
  which triangles refer to it. The second and third legs do so, but the first leg tests
  the forward name against the ledger a second time where the reverse name is meant.
  With no visibility baseline at all and the triangles ABC then BAD, the first leg of BAD
  is recorded as a new missing baseline BA with sign +1 although its reverse AB is in the
  ledger already: both AB and BA end up in the ledger.
\<close>

theorem first_baseline_ignores_reverse_in_ledger:
  "find_triangles [] [] 1 [''ABC'', ''BAD'']
     = ([(''ABC'', [1, 1, 1], [''AB'', ''BC'', ''CA'']),
         (''BAD'', [1, 1, 1], [''BA'', ''AD'', ''DB''])],
        [''AB'', ''BC'', ''CA'', ''BA'', ''AD'', ''DB''])"
  by (simp add: find_triangle_def first_baseline_def second_baseline_def
      third_baseline_def slice_def)

section \<open>Epoch matching\<close>

text \<open>Facts about \<open>argmin\<close> and \<open>min_list\<close>.\<close>

lemma argmin_lt: "xs \<noteq> [] \<Longrightarrow> argmin xs < length xs"
  by (induction xs rule: argmin.induct) auto

lemma min_list_le: "(x::real) \<in> set xs \<Longrightarrow> min_list xs \<le> x"
proof -
  assume a: "x \<in> set xs"
  then have "xs \<noteq> []" by auto
  then have "min_list xs = Min (set xs)" by (rule min_list_Min)
  with a show ?thesis by simp
qed

lemma argmin_min: "xs \<noteq> [] \<Longrightarrow> xs ! argmin xs = min_list xs"
proof (induction xs rule: argmin.induct)
  case (3 x y ys)
  have m: "min_list (x # y # ys) = min x (min_list (y # ys))" by simp
  show ?case
  proof (cases "x \<le> min_list (y # ys)")
    case True
    then show ?thesis unfolding m by (simp add: min_def del: min_list.simps)
  next
    case False
    with 3 show ?thesis unfolding m by (simp add: min_def del: min_list.simps)
  qed
qed simp_all

lemma argmin_first: "j < argmin xs \<Longrightarrow> xs ! argmin xs < xs ! j"
proof (induction xs arbitrary: j rule: argmin.induct)
  case (3 x y ys)
  show ?case
  proof (cases "x \<le> min_list (y # ys)")
    case True
    with 3 show ?thesis by (simp del: min_list.simps)
  next
    case False
    then have a: "argmin (x # y # ys) = Suc (argmin (y # ys))" by (simp del: min_list.simps)
    have m: "(y # ys) ! argmin (y # ys) = min_list (y # ys)" by (rule argmin_min) simp
    show ?thesis
    proof (cases j)
      case 0
      with False a m show ?thesis by (simp del: min_list.simps)
    next
      case (Suc j')
      with 3(2) a have "j' < argmin (y # ys)" by (simp del: min_list.simps)
      with 3(1)[OF False] have "(y # ys) ! argmin (y # ys) < (y # ys) ! j'" by (simp del: min_list.simps)
      with a Suc show ?thesis by (simp del: min_list.simps)
    qed
  qed
qed simp_all

text \<open>Reading a table, appending to its arrays.\<close>

lemma is_vecD: "is_vec r tb k \<Longrightarrow> \<exists>v. map_of tb k = Some (Vec v) \<and> length v = r"
  by (auto simp: is_vec_def split: option.splits field.splits)

lemma is_matD: "is_mat r c tb k \<Longrightarrow> \<exists>A. map_of tb k = Some (Mat A) \<and> mat_shape r c A"
  by (auto simp: is_mat_def split: option.splits field.splits)

lemma is_flagsD: "is_flags r c tb k \<Longrightarrow> \<exists>A. map_of tb k = Some (Flags A) \<and> mat_shape r c A"
  by (auto simp: is_flags_def split: option.splits field.splits)

lemma append_rows_ok:
  "mat_shape r c A \<Longrightarrow> length row = c \<Longrightarrow> append_rows A [row] = Inr (A @ [row])"
  by (auto simp: append_rows_def mat_shape_def list_all_iff)

lemma mat_shape_snoc:
  "mat_shape r c A \<Longrightarrow> length row = c \<Longrightarrow> mat_shape (Suc r) c (A @ [row])"
  by (auto simp: mat_shape_def)

lemma collect_map_Inr: "collect (map Inr xs) = Inr xs"
  by (induction xs) (auto simp: bnd_def)

lemma bcast2_same: "length x = length y \<Longrightarrow> bcast2 f x y = Inr (map2 f x y)"
  by (simp add: bcast2_def)

lemma bcast2_mat_ok:
  assumes a: "mat_shape r c A" and b: "mat_shape r c B"
  shows "bcast2_mat f A B = Inr (map2 (map2 f) A B) \<and> mat_shape r c (map2 (map2 f) A B)"
proof -
  from a b have l: "length A = length B" by (simp add: mat_shape_def)
  have w: "\<And>i. i < length A \<Longrightarrow> length (A ! i) = c \<and> length (B ! i) = c"
    using a b by (simp add: mat_shape_def list_all_length)
  have "map2 (bcast2 f) A B = map Inr (map2 (map2 f) A B)"
    using l w by (simp add: list_eq_iff_nth_eq bcast2_same)
  then have "collect (map2 (bcast2 f) A B) = Inr (map2 (map2 f) A B)"
    by (simp only: collect_map_Inr)
  then have "bcast2_mat f A B = Inr (map2 (map2 f) A B)"
    using l by (simp add: bcast2_mat_def bcast2_same bnd_def)
  moreover have "mat_shape r c (map2 (map2 f) A B)"
    using a b w by (simp add: mat_shape_def list_all_length)
  ultimately show ?thesis by blast
qed

lemma getVec_Inr: "getVec tb k = Inr v \<longleftrightarrow> map_of tb k = Some (Vec v)"
  by (auto simp: getVec_def split: option.splits field.splits)

lemma getMat_Inr: "getMat tb k = Inr v \<longleftrightarrow> map_of tb k = Some (Mat v)"
  by (auto simp: getMat_def split: option.splits field.splits)

lemma getFlags_Inr: "getFlags tb k = Inr v \<longleftrightarrow> map_of tb k = Some (Flags v)"
  by (auto simp: getFlags_def split: option.splits field.splits)

lemma app_vec_ok:
  "map_of tb k = Some (Vec v) \<Longrightarrow> app_vec k x tb = Inr (AList.update k (Vec (v @ [x])) tb)"
  by (simp add: app_vec_def getVec_def bnd_def)

lemma app_mat_ok:
  "map_of tb k = Some (Mat A) \<Longrightarrow> mat_shape r c A \<Longrightarrow> length row = c \<Longrightarrow>
   app_mat k row tb = Inr (AList.update k (Mat (A @ [row])) tb)"
  by (simp add: app_mat_def getMat_def bnd_def append_rows_ok)

lemma app_flags_ok:
  "map_of tb k = Some (Flags A) \<Longrightarrow> mat_shape r c A \<Longrightarrow> length row = c \<Longrightarrow>
   app_flags k row tb = Inr (AList.update k (Flags (A @ [row])) tb)"
  by (simp add: app_flags_def getFlags_def bnd_def append_rows_ok)

lemma set_PA_ok:
  "map_of tb ''v/wl'' = Some (Mat B) \<Longrightarrow> map_of tb ''u/wl'' = Some (Mat A) \<Longrightarrow>
   mat_shape r c A \<Longrightarrow> mat_shape r c B \<Longrightarrow>
   set_PA tb = Inr (AList.update ''PA'' (Mat (map2 (map2 angle_deg) B A)) tb)"
  using bcast2_mat_ok[of r c B A angle_deg]
  by (simp add: set_PA_def getMat_def bnd_def)

lemma leg_rows_ok:
  assumes "t3_coords_ok n t3" "i < n"
  shows "\<exists>u v a b d. leg_rows j s t3 i WL = Inr (u, v, a, b, d) \<and> length a = length WL
            \<and> length b = length WL \<and> length d = length WL"
proof -
  from assms(1) obtain u1 v1 u2 v2 where
    "map_of t3 ''u1'' = Some (Vec u1)" "length u1 = n"
    "map_of t3 ''v1'' = Some (Vec v1)" "length v1 = n"
    "map_of t3 ''u2'' = Some (Vec u2)" "length u2 = n"
    "map_of t3 ''v2'' = Some (Vec v2)" "length v2 = n"
    unfolding t3_coords_ok_def by (auto dest!: is_vecD)
  with assms(2) show ?thesis
    by (simp add: leg_rows_def getVec_def nth_e_def bnd_def)
qed

lemma bcast2_mat_same:
  "length A = length B \<Longrightarrow> list_all2 (\<lambda>x y. length x = length y) A B \<Longrightarrow>
   bcast2_mat f A B = Inr (map2 (map2 f) A B)"
proof -
  assume l: "length A = length B" and w: "list_all2 (\<lambda>x y. length x = length y) A B"
  have "map2 (bcast2 f) A B = map Inr (map2 (map2 f) A B)"
    using l w by (simp add: list_eq_iff_nth_eq bcast2_same list_all2_conv_all_nth)
  then have "collect (map2 (bcast2 f) A B) = Inr (map2 (map2 f) A B)"
    by (simp only: collect_map_Inr)
  then show ?thesis
    using l by (simp add: bcast2_mat_def bcast2_same bnd_def)
qed

lemma mat_shape_all2:
  "mat_shape r c A \<Longrightarrow> mat_shape r c B \<Longrightarrow> list_all2 (\<lambda>x y. length x = length y) A B"
  by (simp add: mat_shape_def list_all2_conv_all_nth list_all_length)


lemma fake_row_ok:
  assumes ok: "vis_table_ok isvis r c tb"
    and len: "length WL = c" "length a = c" "length b = c" "length d = c"
  shows "\<exists>tb'. fake_row isvis WL e (u, v, a, b, d) tb = Inr tb' \<and>
           vis_table_ok isvis (Suc r) c tb' \<and>
           (\<forall>M. getVec tb ''MJD'' = Inr M \<longrightarrow> getVec tb' ''MJD'' = Inr (M @ [e])) \<and>
           (\<forall>k A. k \<in> set (value_keys isvis) \<longrightarrow> getMat tb k = Inr A
               \<longrightarrow> getMat tb' k = Inr (A @ [replicate c (Fin 0)])) \<and>
           (\<forall>k A. k \<in> set (error_keys isvis) \<longrightarrow> getMat tb k = Inr A
               \<longrightarrow> getMat tb' k = Inr (A @ [replicate c (Fin 1)])) \<and>
           (\<forall>F. getFlags tb ''FLAG'' = Inr F
               \<longrightarrow> getFlags tb' ''FLAG'' = Inr (F @ [replicate c True]))"
proof -
  from ok obtain M U V where v:
    "map_of tb ''MJD'' = Some (Vec M)" "length M = r"
    "map_of tb ''u'' = Some (Vec U)" "length U = r"
    "map_of tb ''v'' = Some (Vec V)" "length V = r"
    unfolding vis_table_ok_def by (auto dest!: is_vecD)
  from ok obtain A B D where m:
    "map_of tb ''u/wl'' = Some (Mat A)" "mat_shape r c A"
    "map_of tb ''v/wl'' = Some (Mat B)" "mat_shape r c B"
    "map_of tb ''B/wl'' = Some (Mat D)" "mat_shape r c D"
    unfolding vis_table_ok_def by (auto dest!: is_matD)
  from ok obtain F where f: "map_of tb ''FLAG'' = Some (Flags F)" "mat_shape r c F"
    unfolding vis_table_ok_def by (auto dest!: is_flagsD)
  have pa: "bcast2_mat angle_deg (B @ [b]) (A @ [a]) = Inr (map2 (map2 angle_deg) (B @ [b]) (A @ [a]))"
    using mat_shape_all2[OF mat_shape_snoc[OF m(4) len(3)] mat_shape_snoc[OF m(2) len(2)]]
      m(2,4) by (intro bcast2_mat_same) (simp_all add: mat_shape_def)
  have c0: "map (\<lambda>w. Fin (w * 0)) WL = replicate c (Fin 0)"
    and c1: "map (\<lambda>w. Fin (w * 0 + 1)) WL = replicate c (Fin 1)"
    and ct: "map (\<lambda>w. True) WL = replicate c True"
    using len(1) by (simp_all add: map_replicate_const)
  show ?thesis
  proof (cases isvis)
    case False
    from ok False obtain X E where x:
      "map_of tb ''V2'' = Some (Mat X)" "mat_shape r c X"
      "map_of tb ''EV2'' = Some (Mat E)" "mat_shape r c E"
      unfolding vis_table_ok_def value_keys_def error_keys_def by (auto dest!: is_matD)
    show ?thesis
      using False v m f x len pa c0 c1 ct
      by (simp add: fake_row_def app_vec_def app_mat_def app_flags_def set_PA_def
          getVec_def getMat_def getFlags_def bnd_def update_conv' append_rows_ok
          vis_table_ok_def is_vec_def is_mat_def is_flags_def value_keys_def error_keys_def
          mat_shape_snoc)
  next
    case True
    from ok True obtain X E P Q where x:
      "map_of tb ''|V|'' = Some (Mat X)" "mat_shape r c X"
      "map_of tb ''E|V|'' = Some (Mat E)" "mat_shape r c E"
      "map_of tb ''PHI'' = Some (Mat P)" "mat_shape r c P"
      "map_of tb ''EPHI'' = Some (Mat Q)" "mat_shape r c Q"
      unfolding vis_table_ok_def value_keys_def error_keys_def by (auto dest!: is_matD)
    show ?thesis
      using True v m f x len pa c0 c1 ct
      by (simp add: fake_row_def app_vec_def app_mat_def app_flags_def set_PA_def
          getVec_def getMat_def getFlags_def bnd_def update_conv' append_rows_ok
          vis_table_ok_def is_vec_def is_mat_def is_flags_def value_keys_def error_keys_def
          mat_shape_snoc)
  qed
qed

text \<open>
  Claim C8. One epoch \<open>e\<close> of a triangle against the epochs \<open>M\<close> of the table of one of
  its legs (\<open>match_leg\<close>; a table of \<open>r > 0\<close> rows and \<open>c\<close> channels with the fields of its
  category, the triangle having coordinates at row \<open>i\<close>). When the smallest
  \<open>\<bar>M\<^sub>l - e\<bar>\<close> is below 1e-4 (the test of the source is \<^verbatim>\<open>min(...) < 1e-4\<close>), the result is
  the first index that attains this minimum and the table is unchanged. Otherwise the
  result is the index \<open>length M\<close> of a row appended for \<open>e\<close>: the epochs become \<open>M @ [e]\<close>,
  the value columns get a row of zeros, the error columns a row of ones, the flag mask a
  row of \<open>True\<close>, and the table keeps its shape with one more row.
\<close>

theorem match_leg_nearest_or_append:
  assumes ok: "vis_table_ok isvis r c tb" and r: "0 < r" and wl: "length WL = c"
    and t3: "t3_coords_ok n t3" and i: "i < n"
    and M: "getVec tb ''MJD'' = Inr M"
  shows "if min_list (map (\<lambda>m. \<bar>m - e\<bar>) M) < 1 / 10000
         then \<exists>w. match_leg isvis WL j s t3 i e tb = Inr (w, tb) \<and> w < length M \<and>
                (\<forall>l < length M. \<bar>M ! w - e\<bar> \<le> \<bar>M ! l - e\<bar>) \<and>
                (\<forall>l < w. \<bar>M ! w - e\<bar> < \<bar>M ! l - e\<bar>)
         else \<exists>tb'. match_leg isvis WL j s t3 i e tb = Inr (length M, tb') \<and>
                vis_table_ok isvis (Suc r) c tb' \<and>
                getVec tb' ''MJD'' = Inr (M @ [e]) \<and>
                (\<forall>k A. k \<in> set (value_keys isvis) \<longrightarrow> getMat tb k = Inr A
                    \<longrightarrow> getMat tb' k = Inr (A @ [replicate c (Fin 0)])) \<and>
                (\<forall>k A. k \<in> set (error_keys isvis) \<longrightarrow> getMat tb k = Inr A
                    \<longrightarrow> getMat tb' k = Inr (A @ [replicate c (Fin 1)])) \<and>
                (\<forall>F. getFlags tb ''FLAG'' = Inr F
                    \<longrightarrow> getFlags tb' ''FLAG'' = Inr (F @ [replicate c True]))"
proof -
  from ok M have lM: "length M = r"
    by (auto simp: vis_table_ok_def getVec_Inr dest!: is_vecD)
  with r have ne: "M \<noteq> []" by auto
  let ?d = "map (\<lambda>m. \<bar>m - e\<bar>) M"
  show ?thesis
  proof (cases "min_list ?d < 1 / 10000")
    case True
    have dne: "?d \<noteq> []" using ne by simp
    have a: "argmin ?d < length M" using argmin_lt[OF dne] by simp
    have b: "?d ! argmin ?d = min_list ?d" by (rule argmin_min[OF dne])
    have c: "\<forall>l < length M. \<bar>M ! argmin ?d - e\<bar> \<le> \<bar>M ! l - e\<bar>"
    proof (intro allI impI)
      fix l assume l: "l < length M"
      then have "?d ! l \<in> set ?d" by (metis length_map nth_mem)
      then have "min_list ?d \<le> ?d ! l" by (rule min_list_le)
      with a b l show "\<bar>M ! argmin ?d - e\<bar> \<le> \<bar>M ! l - e\<bar>" by simp
    qed
    have d: "\<forall>l < argmin ?d. \<bar>M ! argmin ?d - e\<bar> < \<bar>M ! l - e\<bar>"
    proof (intro allI impI)
      fix l assume l: "l < argmin ?d"
      from argmin_first[OF l] a l show "\<bar>M ! argmin ?d - e\<bar> < \<bar>M ! l - e\<bar>" by simp
    qed
    have "match_leg isvis WL j s t3 i e tb = Inr (argmin ?d, tb)"
      using M ne True by (simp add: match_leg_def bnd_def)
    with a c d True show ?thesis by auto
  next
    case False
    from leg_rows_ok[OF t3 i, of j s WL] obtain u v a b d where
      lr: "leg_rows j s t3 i WL = Inr (u, v, a, b, d)" and
      len: "length a = c" "length b = c" "length d = c"
      using wl by auto
    from fake_row_ok[OF ok wl len, of e u v] obtain tb' where
      fr: "fake_row isvis WL e (u, v, a, b, d) tb = Inr tb'" and
      p: "vis_table_ok isvis (Suc r) c tb'"
         "\<forall>M. getVec tb ''MJD'' = Inr M \<longrightarrow> getVec tb' ''MJD'' = Inr (M @ [e])"
         "\<forall>k A. k \<in> set (value_keys isvis) \<longrightarrow> getMat tb k = Inr A
               \<longrightarrow> getMat tb' k = Inr (A @ [replicate c (Fin 0)])"
         "\<forall>k A. k \<in> set (error_keys isvis) \<longrightarrow> getMat tb k = Inr A
               \<longrightarrow> getMat tb' k = Inr (A @ [replicate c (Fin 1)])"
         "\<forall>F. getFlags tb ''FLAG'' = Inr F
               \<longrightarrow> getFlags tb' ''FLAG'' = Inr (F @ [replicate c True])"
      by blast
    have "match_leg isvis WL j s t3 i e tb = Inr (length M, tb')"
      using M ne False lr fr by (simp add: match_leg_def bnd_def)
    with p M False show ?thesis by simp
  qed
qed

theorem match_leg_nearest_or_append_witness:
  "match_leg False [2] 2 (- 1) ex_t3 0 1 ex_vis2 = Inr (0, ex_vis2) \<and>
   (\<exists>tb'. match_leg False [2] 2 (- 1) ex_t3 0 3 ex_vis2 = Inr (1, tb') \<and>
      getVec tb' ''MJD'' = Inr [1, 3] \<and>
      getMat tb' ''V2'' = Inr [[Fin 5], [Fin 0]] \<and>
      getMat tb' ''EV2'' = Inr [[Fin 6], [Fin 1]] \<and>
      getFlags tb' ''FLAG'' = Inr [[False], [True]])"
proof -
  have ok: "vis_table_ok False 1 1 ex_vis2"
    by (simp add: vis_table_ok_def ex_vis2_def is_vec_def is_mat_def is_flags_def
        mat_shape_def value_keys_def error_keys_def)
  have t3: "t3_coords_ok 1 ex_t3"
    by (simp add: t3_coords_ok_def ex_t3_def is_vec_def)
  have M: "getVec ex_vis2 ''MJD'' = Inr [1]"
    by (simp add: getVec_def ex_vis2_def)
  have g: "getMat ex_vis2 ''V2'' = Inr [[Fin 5]]" "getMat ex_vis2 ''EV2'' = Inr [[Fin 6]]"
    "getFlags ex_vis2 ''FLAG'' = Inr [[False]]"
    by (simp_all add: getMat_def getFlags_def ex_vis2_def)
  have a: "match_leg False [2] 2 (- 1) ex_t3 0 1 ex_vis2 = Inr (0, ex_vis2)"
    using match_leg_nearest_or_append[OF ok _ _ t3 _ M, of "[2]" 0 1 2 "- 1"] by auto
  have b: "\<exists>tb'. match_leg False [2] 2 (- 1) ex_t3 0 3 ex_vis2 = Inr (1, tb') \<and>
      getVec tb' ''MJD'' = Inr [1, 3] \<and>
      getMat tb' ''V2'' = Inr [[Fin 5], [Fin 0]] \<and>
      getMat tb' ''EV2'' = Inr [[Fin 6], [Fin 1]] \<and>
      getFlags tb' ''FLAG'' = Inr [[False], [True]]"
    using match_leg_nearest_or_append[OF ok _ _ t3 _ M, of "[2]" 0 3 2 "- 1"] g
    by (auto simp: value_keys_def error_keys_def)
  from a b show ?thesis by blast
qed

section \<open>Fabrication of missing baselines\<close>

lemma over_wl_shape: "mat_shape (length u) (length WL) (over_wl u WL)"
  by (simp add: over_wl_def mat_shape_def list_all_iff)

lemma fake_uv_ok:
  assumes "getVec t3 ''u1'' = Inr u1" "getVec t3 ''v1'' = Inr v1"
    "getVec t3 ''u2'' = Inr u2" "getVec t3 ''v2'' = Inr v2"
    "length u1 = n" "length u2 = n" "length v1 = n" "length v2 = n"
  shows "fake_uv t3 idx = Inr (if idx = 0 then (u1, v1) else if idx = 1 then (u2, v2)
            else (map2 (\<lambda>a b. - a - b) u1 u2, map2 (\<lambda>a b. - a - b) v2 v2))"
  using assms by (simp add: fake_uv_def bnd_def bcast2_same)

lemma fake_baseline_ok:
  assumes g: "getVec t3 ''u1'' = Inr u1" "getVec t3 ''v1'' = Inr v1"
    "getVec t3 ''u2'' = Inr u2" "getVec t3 ''v2'' = Inr v2" "getVec t3 ''MJD'' = Inr mjd"
    and l: "length u1 = n" "length u2 = n" "length v1 = n" "length v2 = n" "length mjd = n"
  shows "\<exists>tb. fake_baseline isvis WL t3 idx = Inr tb \<and>
     (\<forall>k \<in> set (value_keys isvis). getMat tb k = Inr (zeros n (length WL))) \<and>
     (\<forall>k \<in> set (error_keys isvis). getMat tb k = Inr (ones n (length WL))) \<and>
     getFlags tb ''FLAG'' = Inr (ones_bool n (length WL)) \<and>
     getVec tb ''MJD'' = Inr mjd \<and>
     (idx = 0 \<longrightarrow> getVec tb ''u'' = Inr u1 \<and> getVec tb ''v'' = Inr v1) \<and>
     (idx = 1 \<longrightarrow> getVec tb ''u'' = Inr u2 \<and> getVec tb ''v'' = Inr v2) \<and>
     (idx = 2 \<longrightarrow> getVec tb ''u'' = Inr (map2 (\<lambda>a b. - a - b) u1 u2))"
proof -
  define uv where "uv = (if idx = 0 then (u1, v1) else if idx = 1 then (u2, v2)
            else (map2 (\<lambda>a b. - a - b) u1 u2, map2 (\<lambda>a b. - a - b) v2 v2))"
  have fu: "fake_uv t3 idx = Inr uv"
    unfolding uv_def using g(1-4) l(1-4) by (rule fake_uv_ok)
  obtain u v where uv: "uv = (u, v)" by (cases uv)
  have lu: "length u = n" "length v = n" using uv l by (auto simp: uv_def split: if_splits)
  have bw: "bcast2_mat (\<lambda>a b. fsqrt (fadd (fmul a a) (fmul b b))) (over_wl u WL) (over_wl v WL)
      = Inr (map2 (map2 (\<lambda>a b. fsqrt (fadd (fmul a a) (fmul b b)))) (over_wl u WL) (over_wl v WL))"
  proof -
    have a: "mat_shape n (length WL) (over_wl u WL)" using over_wl_shape[of u WL] lu by simp
    have b: "mat_shape n (length WL) (over_wl v WL)" using over_wl_shape[of v WL] lu by simp
    show ?thesis by (rule bcast2_mat_ok[OF a b, THEN conjunct1])
  qed
  show ?thesis
    using fu uv bw g(5) l(5)
    by (cases isvis)
       (auto simp: fake_baseline_def bnd_def getMat_def getVec_def getFlags_def
        value_keys_def error_keys_def uv_def split: if_splits)
qed

lemma fake_tables_spec:
  assumes total: "\<And>idx. \<exists>tb. fake_baseline isvis WL t3 idx = Inr tb"
  shows "\<exists>A'. fake_tables isvis WL t3 t ms A = Inr A' \<and>
           (\<forall>m. map_of A' m =
              (if m \<in> set ms \<and> m \<in> set t
               then (case fake_baseline isvis WL t3 (index_of t m) of
                       Inr tb \<Rightarrow> Some tb | Inl e \<Rightarrow> None)
               else map_of A m)) \<and>
           (distinct (map fst A) \<longrightarrow> distinct (map fst A'))"
proof (induction ms arbitrary: A)
  case Nil
  then show ?case by simp
next
  case (Cons m ms)
  show ?case
  proof (cases "m \<in> set t")
    case False
    with Cons[of A] show ?thesis by auto
  next
    case True
    from total obtain tb where tb: "fake_baseline isvis WL t3 (index_of t m) = Inr tb" by blast
    from Cons[of "AList.update m tb A"] obtain A' where
      A': "fake_tables isvis WL t3 t ms (AList.update m tb A) = Inr A'"
      "\<forall>k. map_of A' k =
              (if k \<in> set ms \<and> k \<in> set t
               then (case fake_baseline isvis WL t3 (index_of t k) of
                       Inr tb \<Rightarrow> Some tb | Inl e \<Rightarrow> None)
               else map_of (AList.update m tb A) k)"
      "distinct (map fst (AList.update m tb A)) \<longrightarrow> distinct (map fst A')"
      by blast
    have "fake_tables isvis WL t3 t (m # ms) A = Inr A'"
      using True tb A'(1) by (simp add: bnd_def)
    moreover have "\<forall>k. map_of A' k =
              (if k \<in> set (m # ms) \<and> k \<in> set t
               then (case fake_baseline isvis WL t3 (index_of t k) of
                       Inr tb \<Rightarrow> Some tb | Inl e \<Rightarrow> None)
               else map_of A k)"
      using A'(2) True tb by (auto simp: update_conv')
    moreover have "distinct (map fst A) \<longrightarrow> distinct (map fst A')"
      using A'(3) by (simp add: distinct_update)
    ultimately show ?thesis by blast
  qed
qed

lemma add_fake_spec:
  "distinct (map fst A) \<Longrightarrow>
   \<exists>vis' M'. add_fake A vis M = (vis', M') \<and> map_of vis' = map_of vis ++ map_of A \<and>
      (distinct M \<longrightarrow> set M' = set M - fst ` set A)"
proof (induction A arbitrary: vis M)
  case Nil
  then show ?case by simp
next
  case (Cons p A)
  obtain m tmp where p: "p = (m, tmp)" by (cases p)
  from Cons.prems p have d: "distinct (map fst A)" and n: "m \<notin> fst ` set A" by auto
  from Cons.IH[OF d, of "AList.update m tmp vis" "remove1 m M"] obtain vis' M' where
    r: "add_fake A (AList.update m tmp vis) (remove1 m M) = (vis', M')"
       "map_of vis' = map_of (AList.update m tmp vis) ++ map_of A"
       "distinct (remove1 m M) \<longrightarrow> set M' = set (remove1 m M) - fst ` set A"
    by blast
  have "map_of A m = None" using n by (simp add: map_of_eq_None_iff)
  then have nd: "m \<notin> dom (map_of A)" by auto
  have e1: "map_of (p # A) = (map_of A)(m \<mapsto> tmp)" using p by simp
  have "map_of vis' = (map_of vis)(m \<mapsto> tmp) ++ map_of A"
    using r(2) by (simp add: update_conv')
  also have "\<dots> = (map_of vis ++ map_of A)(m \<mapsto> tmp)"
    using nd by (rule map_add_upd_left)
  also have "\<dots> = map_of vis ++ (map_of A)(m \<mapsto> tmp)"
    by (rule map_add_upd[symmetric])
  finally have a: "map_of vis' = map_of vis ++ map_of (p # A)"
    by (simp only: e1)
  have b: "distinct M \<longrightarrow> set M' = set M - fst ` set (p # A)"
    using r(3) p by auto
  have c: "add_fake (p # A) vis M = (vis', M')" using r(1) p by simp
  from a b c show ?case by blast
qed

text \<open>
  Claim C4, as the code has it. For a name \<open>m\<close> of the ledger \<open>M\<close> that the formula \<open>t\<close> of
  the triangle being processed refers to (the triangle has \<open>n\<close> epochs), \<open>add_missing\<close>
  stores under \<open>m\<close> a table whose value columns are all 0, whose error columns are all 1
  and whose flags are all true, each of \<open>n\<close> rows and one column per channel, and removes
  \<open>m\<close> from the ledger. Its epochs are the epochs of that one triangle: the first in the
  order of processing that refers to \<open>m\<close>, not the union over all the triangles that do
  (the epochs of a later triangle are appended by the epoch matching, and only when
  farther than the tolerance from those present). Its coordinates are \<open>(u1, v1)\<close> of the
  triangle at place 0 of the formula, \<open>(u2, v2)\<close> at place 1, and \<open>u = -u1 - u2\<close> at
  place 2; no sign is applied. The \<open>v\<close> of place 2 is left out of the statement: the
  source computes \<^verbatim>\<open>-v2-v2\<close> there.
\<close>

theorem add_missing_fabricates:
  assumes g: "getVec t3 ''u1'' = Inr u1" "getVec t3 ''v1'' = Inr v1"
    "getVec t3 ''u2'' = Inr u2" "getVec t3 ''v2'' = Inr v2" "getVec t3 ''MJD'' = Inr mjd"
    and l: "length u1 = n" "length u2 = n" "length v1 = n" "length v2 = n" "length mjd = n"
    and m: "m \<in> set M" "m \<in> set t" and d: "distinct M"
  shows "\<exists>vis' M' tb. add_missing isvis WL t3 t vis M = Inr (vis', M') \<and>
     m \<notin> set M' \<and> map_of vis' m = Some tb \<and>
     (\<forall>k \<in> set (value_keys isvis). getMat tb k = Inr (zeros n (length WL))) \<and>
     (\<forall>k \<in> set (error_keys isvis). getMat tb k = Inr (ones n (length WL))) \<and>
     getFlags tb ''FLAG'' = Inr (ones_bool n (length WL)) \<and>
     getVec tb ''MJD'' = Inr mjd \<and>
     (index_of t m = 0 \<longrightarrow> getVec tb ''u'' = Inr u1 \<and> getVec tb ''v'' = Inr v1) \<and>
     (index_of t m = 1 \<longrightarrow> getVec tb ''u'' = Inr u2 \<and> getVec tb ''v'' = Inr v2) \<and>
     (index_of t m = 2 \<longrightarrow> getVec tb ''u'' = Inr (map2 (\<lambda>a b. - a - b) u1 u2))"
proof -
  have total: "\<And>idx. \<exists>tb. fake_baseline isvis WL t3 idx = Inr tb"
    using fake_baseline_ok[OF g l] by blast
  from fake_baseline_ok[OF g l, of isvis WL "index_of t m"] obtain tb where
    tb: "fake_baseline isvis WL t3 (index_of t m) = Inr tb"
    and p: "\<forall>k \<in> set (value_keys isvis). getMat tb k = Inr (zeros n (length WL))"
      "\<forall>k \<in> set (error_keys isvis). getMat tb k = Inr (ones n (length WL))"
      "getFlags tb ''FLAG'' = Inr (ones_bool n (length WL))"
      "getVec tb ''MJD'' = Inr mjd"
      "index_of t m = 0 \<longrightarrow> getVec tb ''u'' = Inr u1 \<and> getVec tb ''v'' = Inr v1"
      "index_of t m = 1 \<longrightarrow> getVec tb ''u'' = Inr u2 \<and> getVec tb ''v'' = Inr v2"
      "index_of t m = 2 \<longrightarrow> getVec tb ''u'' = Inr (map2 (\<lambda>a b. - a - b) u1 u2)"
    by (elim exE conjE) (rule that, assumption+)
  from fake_tables_spec[OF total, of t M "[]"] obtain A where
    A: "fake_tables isvis WL t3 t M [] = Inr A"
      "\<forall>k. map_of A k =
              (if k \<in> set M \<and> k \<in> set t
               then (case fake_baseline isvis WL t3 (index_of t k) of
                       Inr tb \<Rightarrow> Some tb | Inl e \<Rightarrow> None)
               else map_of [] k)"
      "distinct (map fst A)"
    by auto
  from A(2) m tb have Am: "map_of A m = Some tb" by simp
  from add_fake_spec[OF A(3), of vis M] obtain vis' M' where
    v: "add_fake A vis M = (vis', M')" "map_of vis' = map_of vis ++ map_of A"
       "set M' = set M - fst ` set A"
    using d by blast
  have "m \<in> fst ` set A" using Am by (metis domI dom_map_of_conv_image_fst)
  then have "m \<notin> set M'" using v(3) by simp
  moreover have "map_of vis' m = Some tb" using v(2) Am by (simp add: map_add_def)
  moreover have "add_missing isvis WL t3 t vis M = Inr (vis', M')"
    using A(1) v(1) by (simp add: add_missing_def bnd_def)
  ultimately have "add_missing isvis WL t3 t vis M = Inr (vis', M') \<and>
     m \<notin> set M' \<and> map_of vis' m = Some tb \<and>
     (\<forall>k \<in> set (value_keys isvis). getMat tb k = Inr (zeros n (length WL))) \<and>
     (\<forall>k \<in> set (error_keys isvis). getMat tb k = Inr (ones n (length WL))) \<and>
     getFlags tb ''FLAG'' = Inr (ones_bool n (length WL)) \<and>
     getVec tb ''MJD'' = Inr mjd \<and>
     (index_of t m = 0 \<longrightarrow> getVec tb ''u'' = Inr u1 \<and> getVec tb ''v'' = Inr v1) \<and>
     (index_of t m = 1 \<longrightarrow> getVec tb ''u'' = Inr u2 \<and> getVec tb ''v'' = Inr v2) \<and>
     (index_of t m = 2 \<longrightarrow> getVec tb ''u'' = Inr (map2 (\<lambda>a b. - a - b) u1 u2))"
    using p by simp
  then show ?thesis by - (rule exI, rule exI, rule exI, assumption)
qed

lemma ex_formulas:
  "find_triangles [] [] 1 [''ABC'', ''ABD'']
     = ([(''ABC'', [1, 1, 1], [''AB'', ''BC'', ''CA'']),
         (''ABD'', [1, 1, 1], [''AB'', ''BD'', ''DA''])],
        [''AB'', ''BC'', ''CA'', ''BD'', ''DA''])"
  by (simp add: find_triangle_def first_baseline_def second_baseline_def
      third_baseline_def slice_def)

lemma fake_AB:
  "fake_baseline False [2] ex_ABC 0 = Inr
     [(''V2'', Mat [[Fin 0]]), (''EV2'', Mat [[Fin 1]]), (''u'', Vec [1]), (''v'', Vec [2]),
      (''u/wl'', Mat [[Fin (1/2)]]), (''v/wl'', Mat [[Fin 1]]), (''B/wl'', Mat [[Fin (sqrt (5/4))]]),
      (''FLAG'', Flags [[True]]), (''MJD'', Vec [1])]"
  by (simp add: fake_baseline_def fake_uv_def ex_ABC_def getVec_def bnd_def bcast2_mat_def
      bcast2_def over_wl_def zeros_def ones_def ones_bool_def field_simps)

lemmas pass_defs = reconciled_field_def match_triangle_def add_missing_def
  fake_baseline_def fake_uv_def getVec_def getMat_def getFlags_def getTable_def bnd_def bcast2_mat_def
  bcast2_def over_wl_def zeros_def ones_def ones_bool_def index_of_def match_in_def match_leg_def
  nth_e_def ex_ABC_def ex_ABD_def

lemma ex_epochs_of_AB:
  "reconciled_field False [2] [(''ABC'', ex_ABC), (''ABD'', ex_ABD)] []
      [''AB'', ''BC'', ''CA'', ''BD'', ''DA''] ''AB'' ''MJD'' = Inr (Vec [1])"
  by (simp add: pass_defs)

lemma fake_third_leg_reads_v2_twice:
  "reconciled_field False [2] [(''ABC'', ex_ABC), (''ABD'', ex_ABD)] []
      [''AB'', ''BC'', ''CA'', ''BD'', ''DA''] ''CA'' ''v'' = Inr (Vec [- 8])"
  by (simp add: pass_defs)

theorem add_missing_fabricates_witness:
  "\<exists>vis' M' tb. add_missing False [2] ex_ABC [''AB'', ''BC'', ''CA''] []
        [''AB'', ''BC'', ''CA'', ''BD'', ''DA''] = Inr (vis', M') \<and>
     ''CA'' \<notin> set M' \<and> map_of vis' ''CA'' = Some tb \<and>
     getMat tb ''V2'' = Inr [[Fin 0]] \<and> getMat tb ''EV2'' = Inr [[Fin 1]] \<and>
     getFlags tb ''FLAG'' = Inr [[True]] \<and> getVec tb ''MJD'' = Inr [1] \<and>
     getVec tb ''u'' = Inr [- 4]"
  using add_missing_fabricates[of ex_ABC "[1]" "[2]" "[3]" "[4]" "[1]" 1 "''CA''"
      "[''AB'', ''BC'', ''CA'', ''BD'', ''DA'']" "[''AB'', ''BC'', ''CA'']" False "[2]" "[]"]
  by (simp add: ex_ABC_def getVec_def index_of_def value_keys_def error_keys_def zeros_def
      ones_def ones_bool_def)

text \<open>
  The claim as stated fails: the triangles ABC and ABD both refer to the missing baseline
  AB, at epochs 1 and 1.00001; at the end of the pass the fabricated table of AB holds the
  epoch 1 alone, which is not the union of the epochs of the two triangles.
\<close>

theorem fabricated_epochs_not_union:
  "reconciled_field False [2] [(''ABC'', ex_ABC), (''ABD'', ex_ABD)] []
      [''AB'', ''BC'', ''CA'', ''BD'', ''DA''] ''AB'' ''MJD'' = Inr (Vec [1]) \<and>
   getVec ex_ABC ''MJD'' = Inr [1] \<and> getVec ex_ABD ''MJD'' = Inr [100001 / 100000] \<and>
   set [1 :: real] \<noteq> set [1] \<union> set [100001 / 100000]"
  by (simp add: pass_defs)

text \<open>The ledger never holds a name twice.\<close>

lemma find_triangle_distinct:
  "distinct M \<Longrightarrow> distinct (snd (find_triangle sta2 M n k))"
  by (auto simp: find_triangle_def first_baseline_def second_baseline_def third_baseline_def
      split: prod.splits if_splits)

lemma find_triangles_distinct:
  "distinct M \<Longrightarrow> distinct (snd (find_triangles sta2 M n ks))"
proof (induction ks arbitrary: M)
  case Nil
  then show ?case by simp
next
  case (Cons k ks)
  obtain f M' where f: "find_triangle sta2 M n k = (f, M')" by (cases "find_triangle sta2 M n k")
  with find_triangle_distinct[OF Cons.prems, of sta2 n k] have "distinct M'" by simp
  from Cons.IH[OF this] f show ?case by (auto split: prod.splits)
qed

section \<open>The flag filter and the configuration\<close>

lemma flux_kludge_writes:
  assumes "map_of e ''FLUX'' = Some (Mat X)" "map_of filt ''max error'' = Some mx"
    "map_of mx ''NFLUX'' = Some nf"
  shows "flux_kludge e filt
     = Inr (AList.update ''max error''
              (AList.update ''FLUX'' (fmul nf (mean_all (concat X))) mx) filt)"
  using assms by (simp add: flux_kludge_def field_mean_def bnd_def)

text \<open>
  Claim C10. \<open>filtFlag\<close> on a table \<open>e\<close> that has a flux column \<open>X\<close> (and a flag mask), with
  a configuration whose \<^verbatim>\<open>'max error'\<close> rules \<open>mx\<close> have the key \<^verbatim>\<open>'NFLUX'\<close> with the value
  \<open>nf\<close>: the configuration after the call is the caller's with the entry \<^verbatim>\<open>'FLUX'\<close> of
  \<^verbatim>\<open>'max error'\<close> set to \<open>nf\<close> times the mean of \<open>X\<close>, whether or not the rest of the call
  raises. A second call on a table \<open>e2\<close> with the flux column \<open>X2\<close> leaves \<open>nf\<close> times the
  mean of \<open>X2\<close> there: the configuration keeps the value of the last table processed.
\<close>

theorem filtFlag_writes_configuration:
  assumes F: "getFlags e ''FLAG'' = Inr F" and X: "map_of e ''FLUX'' = Some (Mat X)"
    and mx: "map_of filt ''max error'' = Some mx" and nf: "map_of mx ''NFLUX'' = Some nf"
    and F2: "getFlags e2 ''FLAG'' = Inr F2" and X2: "map_of e2 ''FLUX'' = Some (Mat X2)"
  shows "snd (filtFlag e filt)
           = AList.update ''max error''
               (AList.update ''FLUX'' (fmul nf (mean_all (concat X))) mx) filt \<and>
         rule_of (snd (filtFlag e filt)) ''max error'' ''FLUX''
           = Some (fmul nf (mean_all (concat X))) \<and>
         rule_of (snd (filtFlag e2 (snd (filtFlag e filt)))) ''max error'' ''FLUX''
           = Some (fmul nf (mean_all (concat X2)))"
proof -
  let ?mx1 = "AList.update ''FLUX'' (fmul nf (mean_all (concat X))) mx"
  let ?f1 = "AList.update ''max error'' ?mx1 filt"
  have a: "snd (filtFlag e filt) = ?f1"
    using F mx flux_kludge_writes[OF X mx nf] by (simp add: filtFlag_def)
  have m1: "map_of ?f1 ''max error'' = Some ?mx1" by (simp add: update_conv')
  have n1: "map_of ?mx1 ''NFLUX'' = Some nf" using nf by (simp add: update_conv')
  have b: "snd (filtFlag e2 ?f1)
      = AList.update ''max error'' (AList.update ''FLUX'' (fmul nf (mean_all (concat X2))) ?mx1) ?f1"
    using F2 m1 flux_kludge_writes[OF X2 m1 n1] by (simp add: filtFlag_def)
  show ?thesis
    unfolding a b by (simp add: rule_of_def update_conv')
qed

theorem filtFlag_writes_configuration_witness:
  "filtFlag ex_flux1 ex_fit
     = (Inr [[False, True]], [(''max error'', [(''NFLUX'', Fin (1/10)), (''FLUX'', Fin (3/10))])]) \<and>
   rule_of (snd (filtFlag ex_flux2 (snd (filtFlag ex_flux1 ex_fit)))) ''max error'' ''FLUX''
     = Some (Fin 1)"
proof -
  have e: "filtFlag ex_flux1 ex_fit = (Inr [[False, True]], snd (filtFlag ex_flux1 ex_fit))"
    by (simp add: filtFlag_def ex_flux1_def ex_fit_def getFlags_def flux_kludge_def
        field_mean_def mean_all_def fsum_def bnd_def max_error_step_def or_into_def
        bcast2_mat_def bcast2_def)
  have h: "getFlags ex_flux1 ''FLAG'' = Inr [[False, False]]"
    "map_of ex_flux1 ''FLUX'' = Some (Mat [[Fin 2, Fin 4]])"
    "map_of ex_fit ''max error'' = Some [(''NFLUX'', Fin (1/10))]"
    "map_of [(''NFLUX'', Fin (1/10))] ''NFLUX'' = Some (Fin (1/10))"
    "getFlags ex_flux2 ''FLAG'' = Inr [[False, False]]"
    "map_of ex_flux2 ''FLUX'' = Some (Mat [[Fin 10, Fin 10]])"
    by (simp_all add: ex_flux1_def ex_flux2_def ex_fit_def getFlags_def)
  from filtFlag_writes_configuration[OF h] e show ?thesis
    by (simp add: mean_all_def fsum_def ex_fit_def)
qed

section \<open>The rebinned values\<close>

text \<open>Sums of finite samples, boolean masks, and the calls that cannot raise.\<close>

lemma fsum_Fin_aux: "foldl fadd (Fin a) (map Fin xs) = Fin (a + sum_list xs)"
  by (induction xs arbitrary: a) (simp_all add: add.assoc)

lemma fsum_Fin: "fsum (map Fin xs) = Fin (sum_list xs)"
  by (simp add: fsum_def fsum_Fin_aux)

lemma masked_conv:
  "length w = length a \<Longrightarrow>
   masked w a = Inr (map (\<lambda>j. a ! j) (filter (\<lambda>j. w ! j) [0..<length a]))"
proof -
  assume l: "length w = length a"
  have "map snd (filter fst (zip w a)) = map (\<lambda>j. a ! j) (filter (\<lambda>j. w ! j) [0..<length a])"
    using l
  proof (induction w a rule: list_induct2)
    case Nil
    then show ?case by simp
  next
    case (Cons x xs y ys)
    have "filter (\<lambda>j. (x # xs) ! j) [0..<length (y # ys)]
        = (if x then [0] else []) @ map Suc (filter (\<lambda>j. xs ! j) [0..<length ys])"
      by (simp add: upt_rec[of 0] filter_map o_def map_Suc_upt[symmetric] del: upt_Suc)
    then show ?case using Cons by (simp add: o_def)
  qed
  with l show ?thesis by (simp add: masked_def)
qed

lemma sum_list_filter_upt:
  "sum_list (map g (filter P [0..<n])) = (\<Sum>j | j < n \<and> P j. (g j :: real))"
proof -
  have "sum_list (map g (filter P [0..<n])) = sum g (set (filter P [0..<n]))"
    by (rule sum_list_distinct_conv_sum_set) simp
  also have "set (filter P [0..<n]) = {j. j < n \<and> P j}" by auto
  finally show ?thesis .
qed

lemma collect_ok:
  "(\<And>x. x \<in> set xs \<Longrightarrow> \<exists>y. f x = Inr y) \<Longrightarrow>
   \<exists>ys. collect (map f xs) = Inr ys \<and> length ys = length xs \<and>
     (\<forall>i < length xs. f (xs ! i) = Inr (ys ! i))"
proof (induction xs)
  case Nil
  then show ?case by simp
next
  case (Cons x xs)
  from Cons.prems obtain y where y: "f x = Inr y" by auto
  from Cons.IH Cons.prems obtain ys where
    ys: "collect (map f xs) = Inr ys" "length ys = length xs"
        "\<forall>i < length xs. f (xs ! i) = Inr (ys ! i)" by auto
  have "\<forall>i < length (x # xs). f ((x # xs) ! i) = Inr ((y # ys) ! i)"
    using y ys(3) by (auto simp: nth_Cons split: nat.splits)
  with y ys(1,2) show ?case by (auto simp: bnd_def)
qed

lemma binVec_at_total:
  "length X = length Y \<Longrightarrow> length E = length Y \<Longrightarrow> \<exists>y. binVec_at dx X Y E x0 = Inr y"
  by (simp add: binVec_at_def bcast2_same bnd_def)

lemma binVec_total:
  assumes "length X = length Y" "\<And>E. Eo = Some E \<Longrightarrow> length E = length Y"
  shows "\<exists>ys. binVec x X Y Eo = Inr ys \<and> length ys = length x \<and>
     (\<forall>c < length x. binVec_at (median (diff x)) X Y
        (case Eo of None \<Rightarrow> replicate (length Y) (Fin 1) | Some E \<Rightarrow> E) (x ! c) = Inr (ys ! c))"
  unfolding binVec_def
  by (rule collect_ok) (use assms in \<open>auto intro!: binVec_at_total split: option.splits\<close>)

lemma map2_same: "map2 f (map g J) (map h J) = map (\<lambda>j. f (g j) (h j)) J"
  by (induction J) simp_all

lemma ln2_pos: "0 < ln (2 :: real)"
  by simp

lemma kernel_Fin:
  "D \<noteq> 0 \<Longrightarrow> kernel (Fin D) x0 Xj = Fin (exp64 (- ((Xj - x0) ^ 2) / ((6 / 10 * D) ^ 2)))"
proof -
  assume D: "D \<noteq> 0"
  have "- ((Xj - x0) ^ 2) / ((6 / 10 * D) ^ 2) \<le> 0"
    by (simp add: divide_nonpos_nonneg)
  moreover have "0 < 1024 * ln (2 :: real)" by simp
  ultimately have "\<not> 1024 * ln 2 \<le> - ((Xj - x0) ^ 2) / ((6 / 10 * D) ^ 2)" by linarith
  moreover have "fdiv (Fin (- ((Xj - x0) ^ 2))) (fmul (fmul (Fin (6 / 10)) (Fin D)) (fmul (Fin (6 / 10)) (Fin D)))
      = Fin (- ((Xj - x0) ^ 2) / ((6 / 10 * D) ^ 2))"
    using D by (simp add: power2_eq_square)
  ultimately show ?thesis unfolding kernel_def by (simp only: fexp.simps if_False)
qed

lemma binVec_at_indexed:
  assumes D: "D \<noteq> 0" and er: "\<forall>j \<in> set J. er j \<noteq> 0"
  shows "binVec_at (Fin D) (map xs J) (map (\<lambda>j. Fin (y j)) J) (map (\<lambda>j. Fin (er j)) J) x0
     = Inr (fdiv
         (Fin (sum_list (map (\<lambda>j. exp64 (- ((xs j - x0) ^ 2) / ((6 / 10 * D) ^ 2)) * y j / er j) J)))
         (Fin (sum_list (map (\<lambda>j. exp64 (- ((xs j - x0) ^ 2) / ((6 / 10 * D) ^ 2)) / er j) J))))"
proof -
  let ?K = "\<lambda>j. exp64 (- ((xs j - x0) ^ 2) / ((6 / 10 * D) ^ 2))"
  have k: "map (kernel (Fin D) x0) (map xs J) = map (\<lambda>j. Fin (?K j)) J"
    using D by (simp add: kernel_Fin)
  have a: "map2 fmul (map (\<lambda>j. Fin (?K j)) J) (map (\<lambda>j. Fin (y j)) J)
      = map (\<lambda>j. Fin (?K j * y j)) J"
    by (simp add: map2_same)
  have b: "map2 fdiv (map (\<lambda>j. Fin (?K j * y j)) J) (map (\<lambda>j. Fin (er j)) J)
      = map Fin (map (\<lambda>j. ?K j * y j / er j) J)"
    using er by (simp add: map2_same)
  have c: "map2 fdiv (map (\<lambda>j. Fin (?K j)) J) (map (\<lambda>j. Fin (er j)) J)
      = map Fin (map (\<lambda>j. ?K j / er j) J)"
    using er by (simp add: map2_same)
  have s1: "bcast2 fmul (map (\<lambda>j. Fin (?K j)) J) (map (\<lambda>j. Fin (y j)) J)
      = Inr (map (\<lambda>j. Fin (?K j * y j)) J)"
    using a by (simp add: bcast2_same)
  have s2: "bcast2 fdiv (map (\<lambda>j. Fin (?K j * y j)) J) (map (\<lambda>j. Fin (er j)) J)
      = Inr (map Fin (map (\<lambda>j. ?K j * y j / er j) J))"
    using b by (simp add: bcast2_same)
  have s3: "bcast2 fdiv (map (\<lambda>j. Fin (?K j)) J) (map (\<lambda>j. Fin (er j)) J)
      = Inr (map Fin (map (\<lambda>j. ?K j / er j) J))"
    using c by (simp add: bcast2_same)
  show ?thesis
    unfolding binVec_at_def k
    by (simp only: s1 s2 s3 bnd_def sum.case fsum_Fin)
qed

lemma masked_length:
  "masked w a = Inr x \<Longrightarrow> masked w b = Inr y \<Longrightarrow> length x = length y"
proof -
  assume x: "masked w a = Inr x" and y: "masked w b = Inr y"
  then have la: "length w = length a" and lb: "length w = length b"
    by (auto simp: masked_def split: if_splits)
  from x y masked_conv[OF la] masked_conv[OF lb] la lb show ?thesis by auto
qed

lemma binOI_row_total:
  assumes "length Trow = length WL" "length Frow = length WL"
  shows "\<exists>r fl. binOI_row wl WL Trow Frow Eo = Inr (r, fl) \<and> length r = length wl
           \<and> length fl = length wl"
proof -
  from binVec_total[of WL "map (\<lambda>b. Fin (if b then 1 else 0)) Frow" None wl] assms
  obtain fl where fl: "binVec wl WL (map (\<lambda>b. Fin (if b then 1 else 0)) Frow) None = Inr fl"
    "length fl = length wl" by auto
  obtain X where X: "masked (map Not Frow) WL = Inr X" using assms by (simp add: masked_def)
  obtain Y where Y: "masked (map Not Frow) Trow = Inr Y" using assms by (simp add: masked_def)
  have lXY: "length X = length Y" by (rule masked_length[OF X Y])
  show ?thesis
  proof (cases Eo)
    case None
    from binVec_total[of X Y None wl] lXY obtain r where
      "binVec wl X Y None = Inr r" "length r = length wl" by auto
    with fl X Y None show ?thesis by (simp add: binOI_row_def bnd_def)
  next
    case (Some Erow)
    let ?inner = "bnd (masked (map Not Frow) WL) (\<lambda>X.
                 bnd (masked (map Not Frow) Trow) (\<lambda>Y.
                 bnd Erow (\<lambda>Er. bnd (masked (map Not Frow) Er) (\<lambda>E.
                   binVec wl X Y (Some E)))))"
    show ?thesis
    proof (cases ?inner)
      case (Inl e)
      with fl Some show ?thesis by (simp add: binOI_row_def bnd_def)
    next
      case (Inr r)
      then obtain Er E where e: "Erow = Inr Er" "masked (map Not Frow) Er = Inr E"
        "binVec wl X Y (Some E) = Inr r"
        using X Y by (auto simp: bnd_def split: sum.splits)
      have lE: "length E = length Y" using masked_length[OF e(2) Y] .
      have "\<exists>ys. binVec wl X Y (Some E) = Inr ys \<and> length ys = length wl"
        using binVec_total[of X Y "Some E" wl] lXY lE by blast
      with e(3) have "length r = length wl" by simp
      then show ?thesis using fl Some Inr by (simp add: binOI_row_def bnd_def)
    qed
  qed
qed

lemma binOI_rows_total:
  assumes "i0 + length T \<le> length F"
    "\<forall>i < length T. length (T ! i) = length WL \<and> length (F ! (i0 + i)) = length WL"
  shows "\<exists>rs. binOI_rows wl WL T F E i0 = Inr rs \<and> length rs = length T \<and>
     (\<forall>i < length T. binOI_row wl WL (T ! i) (F ! (i0 + i))
         (case E of None \<Rightarrow> None | Some E \<Rightarrow> Some (nth_e E (i0 + i))) = Inr (rs ! i))"
  using assms
proof (induction T arbitrary: i0)
  case Nil
  then show ?case by simp
next
  case (Cons Trow T)
  let ?Eo = "\<lambda>i. case E of None \<Rightarrow> None | Some E \<Rightarrow> Some (nth_e E i)"
  from Cons.prems have f: "nth_e F i0 = Inr (F ! i0)" by (simp add: nth_e_def)
  from Cons.prems(2) have l0: "length Trow = length WL" "length (F ! i0) = length WL"
    by auto
  from binOI_row_total[OF l0, of wl "?Eo i0"] obtain r where
    r: "binOI_row wl WL Trow (F ! i0) (?Eo i0) = Inr r" by auto
  have p1: "Suc i0 + length T \<le> length F" using Cons.prems(1) by simp
  have p2: "\<forall>i < length T. length (T ! i) = length WL \<and> length (F ! (Suc i0 + i)) = length WL"
    using Cons.prems(2) by auto
  from Cons.IH[OF p1 p2] obtain rs where
    rs: "binOI_rows wl WL T F E (Suc i0) = Inr rs" "length rs = length T"
        "\<forall>i < length T. binOI_row wl WL (T ! i) (F ! (Suc i0 + i)) (?Eo (Suc i0 + i)) = Inr (rs ! i)"
    by auto
  have "binOI_rows wl WL (Trow # T) F E i0 = Inr (r # rs)"
    using f r rs(1) by (simp add: bnd_def)
  moreover have "\<forall>i < length (Trow # T). binOI_row wl WL ((Trow # T) ! i) (F ! (i0 + i))
         (?Eo (i0 + i)) = Inr ((r # rs) ! i)"
  proof (intro allI impI)
    fix i assume i: "i < length (Trow # T)"
    show "binOI_row wl WL ((Trow # T) ! i) (F ! (i0 + i)) (?Eo (i0 + i)) = Inr ((r # rs) ! i)"
    proof (cases i)
      case 0
      with r show ?thesis by (cases E) simp_all
    next
      case (Suc i')
      with i rs(3) show ?thesis by (cases E) simp_all
    qed
  qed
  moreover have "length (r # rs) = length (Trow # T)" using rs(2) by simp
  ultimately show ?case by blast
qed

lemma binOI_value:
  assumes T: "mat_shape nr (length WL) T" and F: "mat_shape nr (length WL) F"
    and i: "i < nr" and c: "c < length wl"
    and D: "median (diff wl) = Fin D" "D \<noteq> 0"
    and Y: "\<forall>j < length WL. \<not> F ! i ! j \<longrightarrow> T ! i ! j = Fin (Y j)"
    and E: "case Eo of None \<Rightarrow> (\<forall>j. Er j = 1)
            | Some E \<Rightarrow> i < length E \<and> length (E ! i) = length WL \<and>
                (\<forall>j < length WL. \<not> F ! i ! j \<longrightarrow> E ! i ! j = Fin (Er j))"
    and Er: "\<forall>j < length WL. \<not> F ! i ! j \<longrightarrow> Er j \<noteq> 0"
  shows "\<exists>res flag. binOI wl WL T F Eo = Inr (res, flag) \<and>
           mat_shape nr (length wl) res \<and> mat_shape nr (length wl) flag \<and>
           res ! i ! c =
             fdiv (Fin (\<Sum>j | j < length WL \<and> \<not> F ! i ! j.
                     exp64 (- ((WL ! j - wl ! c) ^ 2) / ((6 / 10 * D) ^ 2)) * Y j / Er j))
                  (Fin (\<Sum>j | j < length WL \<and> \<not> F ! i ! j.
                     exp64 (- ((WL ! j - wl ! c) ^ 2) / ((6 / 10 * D) ^ 2)) / Er j))"
proof -
  let ?n = "length WL"
  let ?K = "\<lambda>j. exp64 (- ((WL ! j - wl ! c) ^ 2) / ((6 / 10 * D) ^ 2))"
  let ?Eo = "\<lambda>i. case Eo of None \<Rightarrow> None | Some E \<Rightarrow> Some (nth_e E i)"
  define Frow where "Frow = F ! i"
  define Trow where "Trow = T ! i"
  define J where "J = filter (\<lambda>j. map Not Frow ! j) [0..<?n]"
  have lT: "length T = nr" and lF: "length F = nr"
    and rT: "\<forall>i < nr. length (T ! i) = ?n" and rF: "\<forall>i < nr. length (F ! i) = ?n"
    using T F by (simp_all add: mat_shape_def list_all_length)
  have lrow: "length Trow = ?n" "length Frow = ?n"
    using rT rF i by (simp_all add: Trow_def Frow_def)
  \<comment> \<open>all the rows are binned\<close>
  from binOI_rows_total[of 0 T F WL wl Eo] lT lF rT rF obtain rs where
    rs: "binOI_rows wl WL T F Eo 0 = Inr rs" "length rs = length T"
        "\<forall>i < length T. binOI_row wl WL (T ! i) (F ! (0 + i)) (?Eo (0 + i)) = Inr (rs ! i)"
    by auto
  have rs3: "\<forall>i < length T. binOI_row wl WL (T ! i) (F ! i) (?Eo i) = Inr (rs ! i)"
    using rs(3) by (cases Eo) simp_all
  have shp: "\<forall>k < nr. length (fst (rs ! k)) = length wl \<and> length (snd (rs ! k)) = length wl"
  proof (intro allI impI)
    fix k assume k: "k < nr"
    from binOI_row_total[of "T ! k" WL "F ! k" wl "?Eo k"] rT rF k obtain r fl where
      "binOI_row wl WL (T ! k) (F ! k) (?Eo k) = Inr (r, fl)" "length r = length wl"
      "length fl = length wl" by auto
    with rs3 k lT show "length (fst (rs ! k)) = length wl \<and> length (snd (rs ! k)) = length wl"
      by auto
  qed
  have b: "binOI wl WL T F Eo = Inr (map fst rs, map snd rs)"
    using rs(1) by (simp add: binOI_def bnd_def)
  have s1: "mat_shape nr (length wl) (map fst rs)" "mat_shape nr (length wl) (map snd rs)"
    using shp rs(2) lT by (simp_all add: mat_shape_def list_all_length)
  \<comment> \<open>the row \<open>i\<close>\<close>
  have Jset: "\<forall>j \<in> set J. j < ?n \<and> \<not> Frow ! j"
    using lrow by (auto simp: J_def)
  have mX: "masked (map Not Frow) WL = Inr (map (\<lambda>j. WL ! j) J)"
    using masked_conv[of "map Not Frow" WL] lrow by (simp add: J_def)
  have "masked (map Not Frow) Trow = Inr (map (\<lambda>j. Trow ! j) J)"
    using masked_conv[of "map Not Frow" Trow] lrow by (simp add: J_def)
  moreover have "map (\<lambda>j. Trow ! j) J = map (\<lambda>j. Fin (Y j)) J"
    using Jset Y by (auto simp: Trow_def Frow_def)
  ultimately have mY: "masked (map Not Frow) Trow = Inr (map (\<lambda>j. Fin (Y j)) J)" by simp
  have erJ: "\<forall>j \<in> set J. Er j \<noteq> 0" using Jset Er by (auto simp: Frow_def)
  have sums: "\<And>g. sum_list (map g J) = (\<Sum>j | j < ?n \<and> \<not> F ! i ! j. (g j :: real))"
  proof -
    fix g :: "nat \<Rightarrow> real"
    have "sum_list (map g J) = (\<Sum>j | j < ?n \<and> map Not Frow ! j. g j)"
      unfolding J_def by (rule sum_list_filter_upt)
    also have "{j. j < ?n \<and> map Not Frow ! j} = {j. j < ?n \<and> \<not> F ! i ! j}"
      using lrow by (auto simp: Frow_def)
    finally show "sum_list (map g J) = (\<Sum>j | j < ?n \<and> \<not> F ! i ! j. g j)" .
  qed
  have at: "binVec_at (Fin D) (map (\<lambda>j. WL ! j) J) (map (\<lambda>j. Fin (Y j)) J)
              (map (\<lambda>j. Fin (Er j)) J) (wl ! c)
      = Inr (fdiv (Fin (\<Sum>j | j < ?n \<and> \<not> F ! i ! j. ?K j * Y j / Er j))
                 (Fin (\<Sum>j | j < ?n \<and> \<not> F ! i ! j. ?K j / Er j)))"
    using binVec_at_indexed[OF D(2) erJ, of "\<lambda>j. WL ! j" Y "wl ! c"] unfolding sums .
  \<comment> \<open>the call of \<open>binVec\<close> for the data of the row\<close>
  have val: "\<exists>ys. (case Eo of
                 None \<Rightarrow> binVec wl (map (\<lambda>j. WL ! j) J) (map (\<lambda>j. Fin (Y j)) J) None
               | Some E \<Rightarrow> binVec wl (map (\<lambda>j. WL ! j) J) (map (\<lambda>j. Fin (Y j)) J)
                             (Some (map (\<lambda>j. Fin (Er j)) J))) = Inr ys \<and>
            ys ! c = fdiv (Fin (\<Sum>j | j < ?n \<and> \<not> F ! i ! j. ?K j * Y j / Er j))
                 (Fin (\<Sum>j | j < ?n \<and> \<not> F ! i ! j. ?K j / Er j))"
  proof (cases Eo)
    case None
    with E have "map (\<lambda>j. Fin (Er j)) J = replicate (length J) (Fin 1)"
      by (simp add: map_replicate_const)
    with binVec_total[of "map (\<lambda>j. WL ! j) J" "map (\<lambda>j. Fin (Y j)) J" None wl] c D(1) at None
    show ?thesis by auto
  next
    case (Some E')
    with binVec_total[of "map (\<lambda>j. WL ! j) J" "map (\<lambda>j. Fin (Y j)) J"
        "Some (map (\<lambda>j. Fin (Er j)) J)" wl] c D(1) at
    show ?thesis by auto
  qed
  from binVec_total[of WL "map (\<lambda>b. Fin (if b then 1 else 0)) Frow" None wl] lrow
  obtain fl where fl: "binVec wl WL (map (\<lambda>b. Fin (if b then 1 else 0)) Frow) None = Inr fl"
    by auto
  have row: "\<exists>ys fs. binOI_row wl WL Trow Frow (?Eo i) = Inr (ys, fs) \<and>
            ys ! c = fdiv (Fin (\<Sum>j | j < ?n \<and> \<not> F ! i ! j. ?K j * Y j / Er j))
                 (Fin (\<Sum>j | j < ?n \<and> \<not> F ! i ! j. ?K j / Er j))"
  proof (cases Eo)
    case None
    with val fl mX mY show ?thesis by (auto simp: binOI_row_def bnd_def)
  next
    case (Some E')
    with E have e: "nth_e E' i = Inr (E' ! i)" "length (E' ! i) = ?n"
      "\<forall>j < ?n. \<not> F ! i ! j \<longrightarrow> E' ! i ! j = Fin (Er j)"
      by (simp_all add: nth_e_def)
    have "masked (map Not Frow) (E' ! i) = Inr (map (\<lambda>j. E' ! i ! j) J)"
      using masked_conv[of "map Not Frow" "E' ! i"] lrow e(2) by (simp add: J_def)
    moreover have "map (\<lambda>j. E' ! i ! j) J = map (\<lambda>j. Fin (Er j)) J"
      using Jset e(3) by (auto simp: Frow_def)
    ultimately have mE: "masked (map Not Frow) (E' ! i) = Inr (map (\<lambda>j. Fin (Er j)) J)"
      by simp
    from val Some obtain ys where
      "binVec wl (map (\<lambda>j. WL ! j) J) (map (\<lambda>j. Fin (Y j)) J)
         (Some (map (\<lambda>j. Fin (Er j)) J)) = Inr ys"
      "ys ! c = fdiv (Fin (\<Sum>j | j < ?n \<and> \<not> F ! i ! j. ?K j * Y j / Er j))
                 (Fin (\<Sum>j | j < ?n \<and> \<not> F ! i ! j. ?K j / Er j))" by auto
    with Some fl mX mY mE e(1) show ?thesis by (simp add: binOI_row_def bnd_def)
  qed
  from rs3 i lT have "binOI_row wl WL Trow Frow (?Eo i) = Inr (rs ! i)"
    by (simp add: Trow_def Frow_def)
  with row have "fst (rs ! i) ! c = fdiv (Fin (\<Sum>j | j < ?n \<and> \<not> F ! i ! j. ?K j * Y j / Er j))
                 (Fin (\<Sum>j | j < ?n \<and> \<not> F ! i ! j. ?K j / Er j))"
    by auto
  then have "map fst rs ! i ! c = fdiv (Fin (\<Sum>j | j < ?n \<and> \<not> F ! i ! j. ?K j * Y j / Er j))
                 (Fin (\<Sum>j | j < ?n \<and> \<not> F ! i ! j. ?K j / Er j))"
    using i rs(2) lT by simp
  with b s1 show ?thesis by blast
qed

lemma median_01: "median (diff [0, 1]) = Fin 1"
  by (simp add: median_def diff_def)



lemma one_plus_exp_nz: "1 + exp (x :: real) \<noteq> 0" "exp (x :: real) + 1 \<noteq> 0"
proof -
  have "0 < 1 + exp x" by (simp add: add_pos_pos)
  then show "1 + exp x \<noteq> 0" "exp x + 1 \<noteq> 0" by simp_all
qed

lemma ln2_ge_half: "1 / 2 \<le> ln (2 :: real)"
proof -
  have "exp (1 / 2 :: real) ^ 2 = exp 1" using exp_double[of "1 / 2 :: real"] by simp
  also have "\<dots> \<le> 2 ^ 2" using exp_le by simp
  finally have "exp (1 / 2 :: real) \<le> 2" by (rule power2_le_imp_le) simp
  then show ?thesis using ln_ge_iff[of 2 "1 / 2"] by simp
qed

lemma ln2_less_2: "ln (2 :: real) < 2"
  by (rule ln_less_self) simp

lemma exp64_eq_exp: "- 537 \<le> a \<Longrightarrow> exp64 a = exp a"
proof -
  assume a: "- 537 \<le> a"
  have "537 < 1075 * ln (2 :: real)" using ln2_ge_half by simp
  with a have "\<not> a < - (1075 * ln 2)" by linarith
  then show ?thesis by (simp add: exp64_def)
qed

lemma exp64_underflow: "a < - 2150 \<Longrightarrow> exp64 a = 0"
proof -
  assume a: "a < - 2150"
  have "1075 * ln (2 :: real) < 2150" using ln2_less_2 by simp
  with a have "a < - (1075 * ln 2)" by linarith
  then show ?thesis by (simp add: exp64_def)
qed
















text \<open>
  Claim C6. \<open>binOI\<close> on data \<open>T\<close> and flags \<open>F\<close> of \<open>nr\<close> rows over the old grid \<open>WL\<close>, with
  a new grid \<open>wl\<close> whose median spacing \<open>D\<close> is not zero. For the row \<open>i\<close> and the channel
  \<open>c\<close> of the new grid, centred at \<open>x0 = wl ! c\<close>, the binned value is the quotient
  \<open>(\<Sum>j. k\<^sub>j * Y\<^sub>j / E\<^sub>j) / (\<Sum>j. k\<^sub>j / E\<^sub>j)\<close> over the unflagged samples \<open>j\<close> of the row, with
  the kernel \<open>k\<^sub>j\<close> the float64 exponential \<open>exp64\<close> of \<open>- (WL\<^sub>j - x0)\<^sup>2 / (0.6 * D)\<^sup>2\<close>, where
  \<open>Y\<^sub>j\<close> are the (finite) unflagged data and \<open>E\<^sub>j\<close> the (finite, non-zero) unflagged errors,
  or 1 for every sample when no error column is given. The quotient is the one of
  float64 (\<open>fdiv\<close>): NaN when both sums vanish, as they do when the row has no unflagged
  sample or when every unflagged sample is so far from \<open>x0\<close> that its weight underflows.
  The call returns arrays of \<open>nr\<close> rows and one column per channel of the new grid.
\<close>

theorem binOI_weighted_average:
  assumes T: "mat_shape nr (length WL) T" and F: "mat_shape nr (length WL) F"
    and i: "i < nr" and c: "c < length wl"
    and D: "median (diff wl) = Fin D" "D \<noteq> 0"
    and Y: "\<forall>j < length WL. \<not> F ! i ! j \<longrightarrow> T ! i ! j = Fin (Y j)"
    and E: "case Eo of None \<Rightarrow> (\<forall>j. Er j = 1)
            | Some E \<Rightarrow> i < length E \<and> length (E ! i) = length WL \<and>
                (\<forall>j < length WL. \<not> F ! i ! j \<longrightarrow> E ! i ! j = Fin (Er j))"
    and Er: "\<forall>j < length WL. \<not> F ! i ! j \<longrightarrow> Er j \<noteq> 0"
  shows "\<exists>res flag. binOI wl WL T F Eo = Inr (res, flag) \<and>
           mat_shape nr (length wl) res \<and> mat_shape nr (length wl) flag \<and>
           res ! i ! c =
             fdiv (Fin (\<Sum>j | j < length WL \<and> \<not> F ! i ! j.
                     exp64 (- ((WL ! j - wl ! c) ^ 2) / ((6 / 10 * D) ^ 2)) * Y j / Er j))
                  (Fin (\<Sum>j | j < length WL \<and> \<not> F ! i ! j.
                     exp64 (- ((WL ! j - wl ! c) ^ 2) / ((6 / 10 * D) ^ 2)) / Er j))"
  using assms by (rule binOI_value)

theorem binOI_weighted_average_witness:
  "(\<exists>res flag. binOI [0, 1] [0, 100] [[Fin 5, Fin 7]] [[True, False]] None = Inr (res, flag) \<and>
      res ! 0 ! 0 = NaN) \<and>
   (\<exists>res flag. binOI [0, 1] [0, 1] [[Fin 0, Fin 1]] [[False, False]] None = Inr (res, flag) \<and>
      res ! 0 ! 0 = Fin (exp (- (25 / 9)) / (1 + exp (- (25 / 9)))))"
proof -
  have s1: "{j. j < length [0, 100 :: real] \<and> \<not> [[True, False]] ! 0 ! j} = {1 :: nat}"
    by (auto simp: less_Suc_eq)
  have s2: "{j. j < length [0, 1 :: real] \<and> \<not> [[False, False]] ! 0 ! j} = {0, 1 :: nat}"
    by (auto simp: less_2_cases_iff)
  have u: "exp64 (- (250000 / 9)) = 0" by (rule exp64_underflow) simp
  have a: "\<exists>res flag. binOI [0, 1] [0, 100] [[Fin 5, Fin 7]] [[True, False]] None = Inr (res, flag) \<and>
      mat_shape 1 (length [0, 1 :: real]) res \<and> mat_shape 1 (length [0, 1 :: real]) flag \<and>
      res ! 0 ! 0 =
        fdiv (Fin (\<Sum>j | j < length [0, 100 :: real] \<and> \<not> [[True, False]] ! 0 ! j.
                exp64 (- (([0, 100] ! j - [0, 1] ! 0) ^ 2) / ((6 / 10 * 1) ^ 2)) * (\<lambda>j. 7) j / (\<lambda>j. 1) j))
             (Fin (\<Sum>j | j < length [0, 100 :: real] \<and> \<not> [[True, False]] ! 0 ! j.
                exp64 (- (([0, 100] ! j - [0, 1] ! 0) ^ 2) / ((6 / 10 * 1) ^ 2)) / (\<lambda>j. 1) j))"
    by (rule binOI_weighted_average[where Er = "\<lambda>j. 1" and Y = "\<lambda>j. 7" and nr = 1 and i = 0
          and D = 1, OF _ _ _ _ median_01])
       (auto simp: mat_shape_def less_Suc_eq)
  have b: "\<exists>res flag. binOI [0, 1] [0, 1] [[Fin 0, Fin 1]] [[False, False]] None = Inr (res, flag) \<and>
      mat_shape 1 (length [0, 1 :: real]) res \<and> mat_shape 1 (length [0, 1 :: real]) flag \<and>
      res ! 0 ! 0 =
        fdiv (Fin (\<Sum>j | j < length [0, 1 :: real] \<and> \<not> [[False, False]] ! 0 ! j.
                exp64 (- (([0, 1] ! j - [0, 1] ! 0) ^ 2) / ((6 / 10 * 1) ^ 2)) * real j / (\<lambda>j. 1) j))
             (Fin (\<Sum>j | j < length [0, 1 :: real] \<and> \<not> [[False, False]] ! 0 ! j.
                exp64 (- (([0, 1] ! j - [0, 1] ! 0) ^ 2) / ((6 / 10 * 1) ^ 2)) / (\<lambda>j. 1) j))"
    by (rule binOI_weighted_average[where Er = "\<lambda>j. 1" and Y = real and nr = 1 and i = 0
          and D = 1, OF _ _ _ _ median_01])
       (auto simp: mat_shape_def less_Suc_eq)
  from a have a': "\<exists>res flag. binOI [0, 1] [0, 100] [[Fin 5, Fin 7]] [[True, False]] None
        = Inr (res, flag) \<and> res ! 0 ! 0 = NaN"
    unfolding s1 by (auto simp: power2_eq_square u)
  from b have b': "\<exists>res flag. binOI [0, 1] [0, 1] [[Fin 0, Fin 1]] [[False, False]] None
        = Inr (res, flag) \<and> res ! 0 ! 0 = Fin (exp (- (25 / 9)) / (1 + exp (- (25 / 9))))"
    unfolding s2 by (auto simp: power2_eq_square exp64_eq_exp one_plus_exp_nz)
  from a' b' show ?thesis by blast
qed

section \<open>Rebinning onto the same grid\<close>






section \<open>Loading a list of files\<close>




text \<open>
  The third assertion, \<^verbatim>\<open>'WL' in res\<close> at line 145, cannot fail once the instrument is one
  of \<^verbatim>\<open>instruments\<close>: both loops read the same wavelength tables.
\<close>

lemma wavelengths_Some: "w \<noteq> None \<Longrightarrow> wavelengths h ins w \<noteq> None"
  by (induction h arbitrary: w) auto

lemma wavelengths_found:
  "instruments_of h = Inr instruments \<Longrightarrow> ins \<in> set instruments \<Longrightarrow>
   wavelengths h ins w \<noteq> None"
proof (induction h arbitrary: instruments w)
  case Nil
  then show ?case by simp
next
  case (Cons x h)
  show ?case
  proof (cases "EXTNAME x = Some ''OI_WAVELENGTH''")
    case False
    with Cons show ?thesis by simp
  next
    case True
    with Cons.prems(1) obtain i r where i: "INSNAME x = Some i" "instruments_of h = Inr r"
      "instruments = i # r"
      by (auto simp: bnd_def split: option.splits sum.splits)
    show ?thesis
    proof (cases "ins = i")
      case True
      with \<open>EXTNAME x = Some ''OI_WAVELENGTH''\<close> i(1) show ?thesis
        by (simp add: wavelengths_Some)
    next
      case False
      with Cons.prems(2) i(3) have "ins \<in> set r" by simp
      from Cons.IH[OF i(2) this] show ?thesis by simp
    qed
  qed
qed




end
